theory Spec2Isabelle
  imports Complex_Main
begin

section \<open>The icon generator of \<^verbatim>\<open>assets/icon/generate_icon.py\<close>\<close>

text \<open>
  The script is one function, \<^verbatim>\<open>generate_icon\<close>, a straight line of calls into the imaging
  library. The embedding keeps that shape: every library call is an action on a \<open>world\<close>
  (the images the process holds, the files on disk, the console, and the list of library
  calls made so far), and \<^verbatim>\<open>generate_icon\<close> is the sequence of those actions, in the order
  of the source. A call that raises returns \<open>Inl\<close>; the two bare \<^verbatim>\<open>except:\<close> clauses of the
  font chain are the only handlers.

  The library itself is not part of the repository. What it does that depends on the
  machine the script runs on (which font files load, what a font measures and paints, how a
  rotation resamples, which pixels a polygon covers, how partial transparency blends, whether
  the output file can be written) is the parameter \<open>env\<close>. Python's unbounded integers are
  \<open>int\<close>; Python's floats are modelled by the real numbers they approximate, so rounding of
  the star coordinates is outside the model.
\<close>

subsection \<open>Data\<close>

type_synonym color = "int \<times> int \<times> int \<times> int"
type_synonym point = "int \<times> int"
type_synonym bbox = "int \<times> int \<times> int \<times> int"

text \<open>An image: its mode, its size (width, height) and its pixels.\<close>

record image =
  im_mode :: string
  im_size :: "int \<times> int"
  im_pixel :: "point \<Rightarrow> color"

text \<open>A font handle: a font file opened at a size, or the library's built-in font.\<close>

datatype font = FreeTypeFont string int | DefaultFont

datatype fault = OSError | ValueError | ReferenceError

text \<open>Images are objects: a handle is the position of the image among those allocated.\<close>

type_synonym handle = nat

text \<open>
  The library calls, as the script makes them. A call that allocates carries the handle it
  returned, and a call that the script guards carries its outcome (\<open>None\<close>: it raised).
\<close>

datatype call =
    is_New: New string "int \<times> int" color "handle option"
  | is_Draw: Draw handle
  | is_Ellipse: Ellipse handle bbox "color option" "color option" int
  | is_Truetype: Truetype string int "font option"
  | is_LoadDefault: LoadDefault font
  | is_Textbbox: Textbbox handle point string font "bbox option"
  | is_Text: Text handle point string font color
  | is_Rotate: Rotate handle int bool handle
  | is_Paste: Paste handle handle point handle
  | is_Polygon: Polygon handle "(real \<times> real) list" color
  | is_Save: Save handle string string bool

record world =
  heap :: "image list"
  files :: "string \<rightharpoonup> string \<times> image"
  stdout :: "string list"
  calls :: "call list"

text \<open>The machine-dependent behaviour of the library.\<close>

record env =
  truetype_ok :: "string \<Rightarrow> int \<Rightarrow> bool"
  textbbox_of :: "font \<Rightarrow> string \<Rightarrow> bbox option"
  text_render :: "font \<Rightarrow> string \<Rightarrow> color \<Rightarrow> point \<Rightarrow> image \<Rightarrow> image"
  rotate_render :: "int \<Rightarrow> bool \<Rightarrow> image \<Rightarrow> image"
  polygon_covers :: "(real \<times> real) list \<Rightarrow> point \<Rightarrow> bool"
  blend :: "int \<Rightarrow> color \<Rightarrow> color \<Rightarrow> color"
  can_write :: "string \<Rightarrow> bool"

subsection \<open>Actions\<close>

type_synonym 'a prog = "world \<Rightarrow> (fault + 'a) \<times> world"

definition return :: "'a \<Rightarrow> 'a prog" where
  "return x = (\<lambda>w. (Inr x, w))"

definition raise :: "fault \<Rightarrow> 'a prog" where
  "raise e = (\<lambda>w. (Inl e, w))"

definition bindE :: "'a prog \<Rightarrow> ('a \<Rightarrow> 'b prog) \<Rightarrow> 'b prog" where
  "bindE m f = (\<lambda>w. case m w of (Inl e, w') \<Rightarrow> (Inl e, w') | (Inr x, w') \<Rightarrow> f x w')"

text \<open>\<^verbatim>\<open>try: m  except: h\<close> with a bare \<^verbatim>\<open>except\<close>: any fault of \<open>m\<close> is dropped and \<open>h\<close> runs in
  the world \<open>m\<close> left behind.\<close>

definition try_except :: "'a prog \<Rightarrow> 'a prog \<Rightarrow> 'a prog" where
  "try_except m h = (\<lambda>w. case m w of (Inl e, w') \<Rightarrow> h w' | (Inr x, w') \<Rightarrow> (Inr x, w'))"

fun for_each :: "('a \<Rightarrow> unit prog) \<Rightarrow> 'a list \<Rightarrow> unit prog" where
  "for_each body [] = return ()"
| "for_each body (x # xs) = bindE (body x) (\<lambda>_. for_each body xs)"

definition log_call :: "call \<Rightarrow> unit prog" where
  "log_call c = (\<lambda>w. (Inr (), w\<lparr>calls := calls w @ [c]\<rparr>))"

definition get_image :: "handle \<Rightarrow> image prog" where
  "get_image h = (\<lambda>w. if h < length (heap w) then (Inr (heap w ! h), w)
                       else (Inl ReferenceError, w))"

definition set_image :: "handle \<Rightarrow> image \<Rightarrow> unit prog" where
  "set_image h im = (\<lambda>w. if h < length (heap w) then (Inr (), w\<lparr>heap := (heap w)[h := im]\<rparr>)
                          else (Inl ReferenceError, w))"

definition alloc_image :: "image \<Rightarrow> handle prog" where
  "alloc_image im = (\<lambda>w. (Inr (length (heap w)), w\<lparr>heap := heap w @ [im]\<rparr>))"

subsection \<open>The imaging library\<close>

definition inside :: "image \<Rightarrow> point \<Rightarrow> bool" where
  "inside im p = (0 \<le> fst p \<and> fst p < fst (im_size im) \<and> 0 \<le> snd p \<and> snd p < snd (im_size im))"

definition getpixel :: "image \<Rightarrow> point \<Rightarrow> color option" where
  "getpixel im p = (if inside im p then Some (im_pixel im p) else None)"

definition alpha :: "color \<Rightarrow> int" where
  "alpha c = snd (snd (snd c))"

text \<open>\<^verbatim>\<open>Image.new(mode, size, color)\<close>: a negative width or height raises.\<close>

definition Image_new :: "string \<Rightarrow> int \<times> int \<Rightarrow> color \<Rightarrow> handle prog" where
  "Image_new m sz c =
     (if fst sz < 0 \<or> snd sz < 0
      then bindE (log_call (New m sz c None)) (\<lambda>_. raise ValueError)
      else bindE (alloc_image \<lparr>im_mode = m, im_size = sz, im_pixel = (\<lambda>_. c)\<rparr>) (\<lambda>h.
           bindE (log_call (New m sz c (Some h))) (\<lambda>_. return h)))"

text \<open>\<^verbatim>\<open>ImageDraw.Draw(im)\<close>: the drawing context paints on \<open>im\<close> itself.\<close>

definition ImageDraw_Draw :: "handle \<Rightarrow> handle prog" where
  "ImageDraw_Draw im = bindE (log_call (Draw im)) (\<lambda>_. return im)"

text \<open>
  The ellipse inscribed in the box \<open>(x0, y0, x1, y1)\<close>, as a test on a pixel, in integer
  arithmetic: \<open>((x - cx) / a)\<^sup>2 + ((y - cy) / b)\<^sup>2 \<le> 1\<close> with centre and half-axes of the box.
\<close>

definition in_ellipse :: "bbox \<Rightarrow> point \<Rightarrow> bool" where
  "in_ellipse xy p =
     (case xy of (x0, y0, x1, y1) \<Rightarrow>
        x0 \<le> x1 \<and> y0 \<le> y1 \<and>
        (2 * fst p - (x0 + x1))\<^sup>2 * (y1 - y0)\<^sup>2 + (2 * snd p - (y0 + y1))\<^sup>2 * (x1 - x0)\<^sup>2
          \<le> (x1 - x0)\<^sup>2 * (y1 - y0)\<^sup>2)"

definition inset :: "bbox \<Rightarrow> int \<Rightarrow> bbox" where
  "inset xy d = (case xy of (x0, y0, x1, y1) \<Rightarrow> (x0 + d, y0 + d, x1 - d, y1 - d))"

text \<open>
  What \<^verbatim>\<open>draw.ellipse(xy, fill, outline, width)\<close> leaves at a pixel: the fill inside the
  ellipse, then the outline on the band of the given width along its inner edge (drawn only
  when an outline is given, differs from the fill and has a width). The pixel is replaced,
  not blended.
\<close>

definition ellipse_px :: "bbox \<Rightarrow> color option \<Rightarrow> color option \<Rightarrow> int \<Rightarrow> image \<Rightarrow> image" where
  "ellipse_px xy fill outline width im =
     im\<lparr>im_pixel := (\<lambda>p.
        let filled = (case fill of None \<Rightarrow> im_pixel im p
                      | Some c \<Rightarrow> if inside im p \<and> in_ellipse xy p then c else im_pixel im p)
        in case outline of None \<Rightarrow> filled
           | Some c \<Rightarrow> if outline \<noteq> fill \<and> width \<noteq> 0 \<and> inside im p
                          \<and> in_ellipse xy p \<and> \<not> in_ellipse (inset xy width) p
                       then c else filled)\<rparr>"

definition ellipse :: "handle \<Rightarrow> bbox \<Rightarrow> color option \<Rightarrow> color option \<Rightarrow> int \<Rightarrow> unit prog" where
  "ellipse draw xy fill outline width =
     bindE (log_call (Ellipse draw xy fill outline width)) (\<lambda>_.
     bindE (get_image draw) (\<lambda>im.
     set_image draw (ellipse_px xy fill outline width im)))"

text \<open>\<^verbatim>\<open>ImageFont.truetype(path, size)\<close> raises when the file does not load at that size.\<close>

definition truetype :: "env \<Rightarrow> string \<Rightarrow> int \<Rightarrow> font prog" where
  "truetype env path sz =
     (if truetype_ok env path sz
      then bindE (log_call (Truetype path sz (Some (FreeTypeFont path sz)))) (\<lambda>_.
           return (FreeTypeFont path sz))
      else bindE (log_call (Truetype path sz None)) (\<lambda>_. raise OSError))"

text \<open>\<^verbatim>\<open>ImageFont.load_default()\<close>: the font built into the library; it reads no file.\<close>

definition load_default :: "font prog" where
  "load_default = bindE (log_call (LoadDefault DefaultFont)) (\<lambda>_. return DefaultFont)"

text \<open>\<^verbatim>\<open>draw.textbbox(xy, text, font)\<close>: the box of the text anchored at \<open>xy\<close>; it raises when
  the font cannot be measured.\<close>

definition textbbox :: "env \<Rightarrow> handle \<Rightarrow> point \<Rightarrow> string \<Rightarrow> font \<Rightarrow> bbox prog" where
  "textbbox env draw xy txt f =
     (case textbbox_of env f txt of
        None \<Rightarrow> bindE (log_call (Textbbox draw xy txt f None)) (\<lambda>_. raise ValueError)
      | Some (l, t, r, b) \<Rightarrow>
          (let box = (fst xy + l, snd xy + t, fst xy + r, snd xy + b)
           in bindE (log_call (Textbbox draw xy txt f (Some box))) (\<lambda>_. return box)))"

definition draw_text :: "env \<Rightarrow> handle \<Rightarrow> point \<Rightarrow> string \<Rightarrow> font \<Rightarrow> color \<Rightarrow> unit prog" where
  "draw_text env draw xy txt f fill =
     bindE (log_call (Text draw xy txt f fill)) (\<lambda>_.
     bindE (get_image draw) (\<lambda>im.
     set_image draw (text_render env f txt fill xy im)))"

text \<open>\<^verbatim>\<open>im.rotate(angle, expand=...)\<close> returns a new image and leaves \<open>im\<close> as it is.\<close>

definition rotate :: "env \<Rightarrow> handle \<Rightarrow> int \<Rightarrow> bool \<Rightarrow> handle prog" where
  "rotate env im angle expand =
     bindE (get_image im) (\<lambda>src.
     bindE (alloc_image (rotate_render env angle expand src)) (\<lambda>h.
     bindE (log_call (Rotate im angle expand h)) (\<lambda>_. return h)))"

text \<open>
  \<^verbatim>\<open>dst.paste(src, (x, y), mask)\<close>: over the part of \<open>src\<close>, placed with its corner at
  \<open>(x, y)\<close>, that falls on \<open>dst\<close>, a pixel where the mask's alpha is 0 is kept, one where it
  is 255 is taken from \<open>src\<close>, and one in between is blended.
\<close>

definition paste_px :: "env \<Rightarrow> image \<Rightarrow> point \<Rightarrow> image \<Rightarrow> image \<Rightarrow> image" where
  "paste_px env src box msk dst =
     dst\<lparr>im_pixel := (\<lambda>p.
        let q = (fst p - fst box, snd p - snd box)
        in if inside dst p \<and> inside src q \<and> inside msk q
           then (let m = alpha (im_pixel msk q)
                 in if m = 0 then im_pixel dst p
                    else if m = 255 then im_pixel src q
                    else blend env m (im_pixel dst p) (im_pixel src q))
           else im_pixel dst p)\<rparr>"

definition paste :: "env \<Rightarrow> handle \<Rightarrow> handle \<Rightarrow> point \<Rightarrow> handle \<Rightarrow> unit prog" where
  "paste env dst src box msk =
     bindE (log_call (Paste dst src box msk)) (\<lambda>_.
     bindE (get_image dst) (\<lambda>d.
     bindE (get_image src) (\<lambda>s.
     bindE (get_image msk) (\<lambda>m.
     set_image dst (paste_px env s box m d)))))"

text \<open>\<^verbatim>\<open>draw.polygon(points, fill)\<close>: the covered pixels are replaced by the fill.\<close>

definition polygon_px :: "env \<Rightarrow> (real \<times> real) list \<Rightarrow> color \<Rightarrow> image \<Rightarrow> image" where
  "polygon_px env pts fill im =
     im\<lparr>im_pixel := (\<lambda>p. if inside im p \<and> polygon_covers env pts p then fill
                          else im_pixel im p)\<rparr>"

definition polygon :: "env \<Rightarrow> handle \<Rightarrow> (real \<times> real) list \<Rightarrow> color \<Rightarrow> unit prog" where
  "polygon env draw pts fill =
     bindE (log_call (Polygon draw pts fill)) (\<lambda>_.
     bindE (get_image draw) (\<lambda>im.
     set_image draw (polygon_px env pts fill im)))"

text \<open>\<^verbatim>\<open>im.save(path, format)\<close>: replaces whatever the path held; raises when the path cannot
  be written.\<close>

definition save :: "env \<Rightarrow> handle \<Rightarrow> string \<Rightarrow> string \<Rightarrow> unit prog" where
  "save env im path fmt =
     bindE (get_image im) (\<lambda>i.
     if can_write env path
     then bindE (log_call (Save im path fmt True)) (\<lambda>_.
          (\<lambda>w. (Inr (), w\<lparr>files := (files w)(path \<mapsto> (fmt, i))\<rparr>)))
     else bindE (log_call (Save im path fmt False)) (\<lambda>_. raise OSError))"

definition print :: "string \<Rightarrow> unit prog" where
  "print s = (\<lambda>w. (Inr (), w\<lparr>stdout := stdout w @ [s]\<rparr>))"

definition radians :: "real \<Rightarrow> real" where
  "radians d = d * pi / 180"

subsection \<open>The script\<close>

text \<open>
  \<^verbatim>\<open>generate_icon\<close> is given below in the order of its source lines, one definition for each
  of the blocks its comments mark off. A block takes the local variables it reads
  (\<^verbatim>\<open>img\<close>, \<^verbatim>\<open>draw\<close>, \<^verbatim>\<open>center\<close>, \<^verbatim>\<open>font_large\<close>) as parameters. Tuples are indexed by
  projection, \<^verbatim>\<open>//\<close> is \<open>div\<close> (both round down), and \<^verbatim>\<open>range(10)\<close> is \<open>[0..9]\<close>.
\<close>

text \<open>Lines 27 to 39: the font chain. Each \<^verbatim>\<open>try\<close> body loads both sizes, so a tier is left
  as soon as either load raises.\<close>

definition load_fonts :: "env \<Rightarrow> (font \<times> font) prog" where
  "load_fonts env =
     try_except
       (bindE (truetype env ''arial.ttf'' 140) (\<lambda>font_large.
        bindE (truetype env ''arial.ttf'' 40) (\<lambda>font_emoji.
        return (font_large, font_emoji))))
       (try_except
          (bindE (truetype env ''C:/Windows/Fonts/arial.ttf'' 140) (\<lambda>font_large.
           bindE (truetype env ''C:/Windows/Fonts/arial.ttf'' 40) (\<lambda>font_emoji.
           return (font_large, font_emoji))))
          (bindE load_default (\<lambda>font_large.
           bindE load_default (\<lambda>font_emoji.
           return (font_large, font_emoji)))))"

text \<open>Lines 41 to 61: the red label.\<close>

definition draw_hello :: "env \<Rightarrow> handle \<Rightarrow> handle \<Rightarrow> point \<Rightarrow> font \<Rightarrow> unit prog" where
  "draw_hello env img draw center font_large =
     (let hello_text = ''Hello''; hello_color = (255, 59, 48, 255) in
      bindE (textbbox env draw (0, 0) hello_text font_large) (\<lambda>(b0, b1, b2, b3).
      let hello_width = b2 - b0; hello_height = b3 - b1;
          hello_x = fst center - hello_width div 2; hello_y = 350 in
      bindE (Image_new ''RGBA'' (hello_width + 100, hello_height + 50) (0, 0, 0, 0)) (\<lambda>hello_img.
      bindE (ImageDraw_Draw hello_img) (\<lambda>hello_draw.
      bindE (draw_text env hello_draw (50, 25) hello_text font_large hello_color) (\<lambda>_.
      bindE (rotate env hello_img (- 8) True) (\<lambda>hello_rotated.
      paste env img hello_rotated (hello_x - 50, hello_y - 25) hello_rotated))))))"

text \<open>Lines 63 to 83: the blue label.\<close>

definition draw_world :: "env \<Rightarrow> handle \<Rightarrow> handle \<Rightarrow> point \<Rightarrow> font \<Rightarrow> unit prog" where
  "draw_world env img draw center font_large =
     (let world_text = ''World''; world_color = (0, 122, 255, 255) in
      bindE (textbbox env draw (0, 0) world_text font_large) (\<lambda>(b0, b1, b2, b3).
      let world_width = b2 - b0; world_height = b3 - b1;
          world_x = fst center - world_width div 2; world_y = 520 in
      bindE (Image_new ''RGBA'' (world_width + 100, world_height + 50) (0, 0, 0, 0)) (\<lambda>world_img.
      bindE (ImageDraw_Draw world_img) (\<lambda>world_draw.
      bindE (draw_text env world_draw (50, 25) world_text font_large world_color) (\<lambda>_.
      bindE (rotate env world_img 5 True) (\<lambda>world_rotated.
      paste env img world_rotated (world_x - 50, world_y - 25) world_rotated))))))"

text \<open>Lines 86 to 110: the stars. \<open>star_points\<close> is the inner loop, which appends one vertex
  for each \<open>i\<close> of \<^verbatim>\<open>range(10)\<close>.\<close>

definition sparkle_positions :: "point list" where
  "sparkle_positions = [(180, 200), (844, 180), (160, 780), (860, 820)]"

definition star_points :: "point \<Rightarrow> (real \<times> real) list" where
  "star_points pos =
     (let star_size = 20 in
      foldl (\<lambda>points i.
               let angle = i * 36;
                   r = (if i mod 2 = 0 then star_size else star_size div 2);
                   x = real_of_int (fst pos) + real_of_int r * cos (radians (real_of_int (angle - 90)));
                   y = real_of_int (snd pos) + real_of_int r * sin (radians (real_of_int (angle - 90)))
               in points @ [(x, y)])
            [] [0..9])"

definition draw_stars :: "env \<Rightarrow> handle \<Rightarrow> unit prog" where
  "draw_stars env draw =
     (let star_color = (255, 215, 0, 200) in
      for_each (\<lambda>pos. polygon env draw (star_points pos) star_color) sparkle_positions)"

text \<open>Lines 87 and 112 to 115: the hearts, drawn as circles with the default outline width.\<close>

definition heart_positions :: "point list" where
  "heart_positions = [(240, 340), (780, 680)]"

definition draw_hearts :: "handle \<Rightarrow> unit prog" where
  "draw_hearts draw =
     (let heart_color = (255, 105, 180, 150) in
      for_each (\<lambda>pos. ellipse draw (fst pos - 15, snd pos - 15, fst pos + 15, snd pos + 15)
                         (Some heart_color) None 1)
               heart_positions)"

text \<open>The whole function, lines 11 to 122.\<close>

definition generate_icon :: "env \<Rightarrow> string prog" where
  "generate_icon env =
     (let size = (1024, 1024) in
      bindE (Image_new ''RGBA'' size (248, 249, 250, 255)) (\<lambda>img.
      bindE (ImageDraw_Draw img) (\<lambda>draw.
      let center = (512, 512); radius = 480;
          circle_bbox = (fst center - radius, snd center - radius,
                         fst center + radius, snd center + radius) in
      bindE (ellipse draw circle_bbox (Some (248, 249, 250, 255)) (Some (222, 226, 230, 255)) 8) (\<lambda>_.
      bindE (load_fonts env) (\<lambda>(font_large, font_emoji).
      bindE (draw_hello env img draw center font_large) (\<lambda>_.
      bindE (draw_world env img draw center font_large) (\<lambda>_.
      bindE (draw_stars env draw) (\<lambda>_.
      bindE (draw_hearts draw) (\<lambda>_.
      let output_path = ''icon.png'' in
      bindE (save env img output_path ''PNG'') (\<lambda>_.
      bindE (print (''Icon generated successfully as '' @ output_path)) (\<lambda>_.
      return output_path)))))))))))"

text \<open>The script runs in a fresh process: no image is held, nothing is printed, no call
  is made yet; only the files on disk are given.\<close>

definition init_world :: "(string \<rightharpoonup> string \<times> image) \<Rightarrow> world" where
  "init_world fs = \<lparr>heap = [], files = fs, stdout = [], calls = []\<rparr>"

subsection \<open>The same function without the small font\<close>

text \<open>
  For comparison only: \<^verbatim>\<open>generate_icon\<close> with the three assignments to \<^verbatim>\<open>font_emoji\<close>
  (lines 30, 35 and 39) deleted and nothing else changed.
\<close>

definition load_font_large :: "env \<Rightarrow> font prog" where
  "load_font_large env =
     try_except (truetype env ''arial.ttf'' 140)
       (try_except (truetype env ''C:/Windows/Fonts/arial.ttf'' 140) load_default)"

definition generate_icon_without_font_emoji :: "env \<Rightarrow> string prog" where
  "generate_icon_without_font_emoji env =
     (let size = (1024, 1024) in
      bindE (Image_new ''RGBA'' size (248, 249, 250, 255)) (\<lambda>img.
      bindE (ImageDraw_Draw img) (\<lambda>draw.
      let center = (512, 512); radius = 480;
          circle_bbox = (fst center - radius, snd center - radius,
                         fst center + radius, snd center + radius) in
      bindE (ellipse draw circle_bbox (Some (248, 249, 250, 255)) (Some (222, 226, 230, 255)) 8) (\<lambda>_.
      bindE (load_font_large env) (\<lambda>font_large.
      bindE (draw_hello env img draw center font_large) (\<lambda>_.
      bindE (draw_world env img draw center font_large) (\<lambda>_.
      bindE (draw_stars env draw) (\<lambda>_.
      bindE (draw_hearts draw) (\<lambda>_.
      let output_path = ''icon.png'' in
      bindE (save env img output_path ''PNG'') (\<lambda>_.
      bindE (print (''Icon generated successfully as '' @ output_path)) (\<lambda>_.
      return output_path)))))))))))"

subsection \<open>Reading a run\<close>

text \<open>The pixel of a saved file, as a viewer would sample it.\<close>

definition saved_pixel :: "world \<Rightarrow> string \<Rightarrow> point \<Rightarrow> color option" where
  "saved_pixel w path p = (case files w path of None \<Rightarrow> None | Some (fmt, im) \<Rightarrow> getpixel im p)"

text \<open>
  Whether a call paints the pixel \<open>p\<close> of the image \<open>d\<close>, by the rules of the library above:
  an ellipse or a polygon drawn on \<open>d\<close> that covers \<open>p\<close>, or a paste onto \<open>d\<close> whose mask is
  not fully transparent there. \<open>hp\<close> holds the images the handles stand for.
\<close>

fun paints :: "env \<Rightarrow> image list \<Rightarrow> handle \<Rightarrow> point \<Rightarrow> call \<Rightarrow> bool" where
  "paints env hp d p (Ellipse h xy fill outl wd) = (h = d \<and> in_ellipse xy p)"
| "paints env hp d p (Polygon h pts col) = (h = d \<and> polygon_covers env pts p)"
| "paints env hp d p (Paste h s box m) =
     (h = d \<and> s < length hp \<and> m < length hp \<and>
      (let q = (fst p - fst box, snd p - snd box)
       in inside (hp ! s) q \<and> inside (hp ! m) q \<and> alpha (im_pixel (hp ! m) q) \<noteq> 0))"
| "paints env hp d p _ = False"

text \<open>The coordinates a shape is drawn with: the vertices of a polygon, the corners of the
  box of an ellipse.\<close>

fun drawn_coords :: "call \<Rightarrow> (real \<times> real) list" where
  "drawn_coords (Polygon h pts col) = pts"
| "drawn_coords (Ellipse h xy fill outl wd) =
     (case xy of (x0, y0, x1, y1) \<Rightarrow>
        [(real_of_int x0, real_of_int y0), (real_of_int x1, real_of_int y1)])"
| "drawn_coords _ = []"

definition within_canvas :: "real \<times> real \<Rightarrow> bool" where
  "within_canvas v = (0 \<le> fst v \<and> fst v \<le> 1024 \<and> 0 \<le> snd v \<and> snd v \<le> 1024)"

text \<open>The calls one tier of the font chain makes, and whether it yields its two fonts.\<close>

definition tier_ok :: "env \<Rightarrow> string \<Rightarrow> bool" where
  "tier_ok env path = (truetype_ok env path 140 \<and> truetype_ok env path 40)"

definition tier_calls :: "env \<Rightarrow> string \<Rightarrow> call list" where
  "tier_calls env path =
     (if truetype_ok env path 140
      then [Truetype path 140 (Some (FreeTypeFont path 140)),
            Truetype path 40 (if truetype_ok env path 40 then Some (FreeTypeFont path 40) else None)]
      else [Truetype path 140 None])"

text \<open>What follows describes the world a run without fault ends in. None of it is read by
  the script; the lemmas below prove that the script computes it.\<close>

definition chosen_fonts :: "env \<Rightarrow> font \<times> font" where
  "chosen_fonts env =
     (if tier_ok env ''arial.ttf''
      then (FreeTypeFont ''arial.ttf'' 140, FreeTypeFont ''arial.ttf'' 40)
      else if tier_ok env ''C:/Windows/Fonts/arial.ttf''
      then (FreeTypeFont ''C:/Windows/Fonts/arial.ttf'' 140,
            FreeTypeFont ''C:/Windows/Fonts/arial.ttf'' 40)
      else (DefaultFont, DefaultFont))"

definition font_calls :: "env \<Rightarrow> call list" where
  "font_calls env =
     tier_calls env ''arial.ttf'' @
     (if tier_ok env ''arial.ttf'' then []
      else tier_calls env ''C:/Windows/Fonts/arial.ttf'' @
           (if tier_ok env ''C:/Windows/Fonts/arial.ttf'' then []
            else [LoadDefault DefaultFont, LoadDefault DefaultFont]))"

definition chosen_font_large :: "env \<Rightarrow> font" where
  "chosen_font_large env =
     (if truetype_ok env ''arial.ttf'' 140 then FreeTypeFont ''arial.ttf'' 140
      else if truetype_ok env ''C:/Windows/Fonts/arial.ttf'' 140
      then FreeTypeFont ''C:/Windows/Fonts/arial.ttf'' 140
      else DefaultFont)"

definition font_large_calls :: "env \<Rightarrow> call list" where
  "font_large_calls env =
     (if truetype_ok env ''arial.ttf'' 140
      then [Truetype ''arial.ttf'' 140 (Some (FreeTypeFont ''arial.ttf'' 140))]
      else Truetype ''arial.ttf'' 140 None #
           (if truetype_ok env ''C:/Windows/Fonts/arial.ttf'' 140
            then [Truetype ''C:/Windows/Fonts/arial.ttf'' 140
                    (Some (FreeTypeFont ''C:/Windows/Fonts/arial.ttf'' 140))]
            else [Truetype ''C:/Windows/Fonts/arial.ttf'' 140 None, LoadDefault DefaultFont]))"

definition box_width :: "bbox \<Rightarrow> int" where
  "box_width box = (case box of (l, t, r, b) \<Rightarrow> r - l)"

definition box_height :: "bbox \<Rightarrow> int" where
  "box_height box = (case box of (l, t, r, b) \<Rightarrow> b - t)"

definition box_fits :: "bbox \<Rightarrow> bool" where
  "box_fits box = (0 \<le> box_width box + 100 \<and> 0 \<le> box_height box + 50)"

definition label_layer :: "env \<Rightarrow> font \<Rightarrow> string \<Rightarrow> color \<Rightarrow> bbox \<Rightarrow> image" where
  "label_layer env f txt fill box =
     text_render env f txt fill (50, 25)
       \<lparr>im_mode = ''RGBA'', im_size = (box_width box + 100, box_height box + 50),
        im_pixel = (\<lambda>_. (0, 0, 0, 0))\<rparr>"

definition hello_rotated :: "env \<Rightarrow> font \<Rightarrow> bbox \<Rightarrow> image" where
  "hello_rotated env f box =
     rotate_render env (- 8) True (label_layer env f ''Hello'' (255, 59, 48, 255) box)"

definition world_rotated :: "env \<Rightarrow> font \<Rightarrow> bbox \<Rightarrow> image" where
  "world_rotated env f box =
     rotate_render env 5 True (label_layer env f ''World'' (0, 122, 255, 255) box)"

definition hello_calls :: "font \<Rightarrow> bbox \<Rightarrow> call list" where
  "hello_calls f box =
     [Textbbox 0 (0, 0) ''Hello'' f (Some box),
      New ''RGBA'' (box_width box + 100, box_height box + 50) (0, 0, 0, 0) (Some 1),
      Draw 1,
      Text 1 (50, 25) ''Hello'' f (255, 59, 48, 255),
      Rotate 1 (- 8) True 2,
      Paste 0 2 (512 - box_width box div 2 - 50, 325) 2]"

definition world_calls :: "font \<Rightarrow> bbox \<Rightarrow> call list" where
  "world_calls f box =
     [Textbbox 0 (0, 0) ''World'' f (Some box),
      New ''RGBA'' (box_width box + 100, box_height box + 50) (0, 0, 0, 0) (Some 3),
      Draw 3,
      Text 3 (50, 25) ''World'' f (0, 122, 255, 255),
      Rotate 3 5 True 4,
      Paste 0 4 (512 - box_width box div 2 - 50, 495) 4]"

definition star_calls :: "call list" where
  "star_calls = map (\<lambda>pos. Polygon 0 (star_points pos) (255, 215, 0, 200)) sparkle_positions"

definition heart_calls :: "call list" where
  "heart_calls =
     map (\<lambda>pos. Ellipse 0 (fst pos - 15, snd pos - 15, fst pos + 15, snd pos + 15)
                   (Some (255, 105, 180, 150)) None 1) heart_positions"

definition background :: image where
  "background =
     ellipse_px (32, 32, 992, 992) (Some (248, 249, 250, 255)) (Some (222, 226, 230, 255)) 8
       \<lparr>im_mode = ''RGBA'', im_size = (1024, 1024), im_pixel = (\<lambda>_. (248, 249, 250, 255))\<rparr>"

definition labelled :: "env \<Rightarrow> font \<Rightarrow> bbox \<Rightarrow> bbox \<Rightarrow> image" where
  "labelled env f hbox wbox =
     paste_px env (world_rotated env f wbox) (512 - box_width wbox div 2 - 50, 495)
       (world_rotated env f wbox)
       (paste_px env (hello_rotated env f hbox) (512 - box_width hbox div 2 - 50, 325)
          (hello_rotated env f hbox) background)"

definition decorate :: "env \<Rightarrow> image \<Rightarrow> image" where
  "decorate env c =
     foldl (\<lambda>im pos. ellipse_px (fst pos - 15, snd pos - 15, fst pos + 15, snd pos + 15)
                        (Some (255, 105, 180, 150)) None 1 im)
       (foldl (\<lambda>im pos. polygon_px env (star_points pos) (255, 215, 0, 200) im) c sparkle_positions)
       heart_positions"

definition final_canvas :: "env \<Rightarrow> font \<Rightarrow> bbox \<Rightarrow> bbox \<Rightarrow> image" where
  "final_canvas env f hbox wbox = decorate env (labelled env f hbox wbox)"

definition final_world ::
    "env \<Rightarrow> font \<Rightarrow> call list \<Rightarrow> (string \<rightharpoonup> string \<times> image) \<Rightarrow> bbox \<Rightarrow> bbox \<Rightarrow> world" where
  "final_world env f fc fs hbox wbox =
     \<lparr>heap = [final_canvas env f hbox wbox,
              label_layer env f ''Hello'' (255, 59, 48, 255) hbox, hello_rotated env f hbox,
              label_layer env f ''World'' (0, 122, 255, 255) wbox, world_rotated env f wbox],
      files = fs(''icon.png'' \<mapsto> (''PNG'', final_canvas env f hbox wbox)),
      stdout = [''Icon generated successfully as icon.png''],
      calls = [New ''RGBA'' (1024, 1024) (248, 249, 250, 255) (Some 0), Draw 0,
               Ellipse 0 (32, 32, 992, 992) (Some (248, 249, 250, 255))
                 (Some (222, 226, 230, 255)) 8]
              @ fc @ hello_calls f hbox @ world_calls f wbox @ star_calls @ heart_calls
              @ [Save 0 ''icon.png'' ''PNG'' True]\<rparr>"

text \<open>The vertex the inner loop of the stars appends for \<open>i\<close>.\<close>

definition star_vertex :: "point \<Rightarrow> int \<Rightarrow> real \<times> real" where
  "star_vertex pos i =
     (real_of_int (fst pos)
        + real_of_int (if i mod 2 = 0 then 20 else 20 div 2) * cos (radians (real_of_int (i * 36 - 90))),
      real_of_int (snd pos)
        + real_of_int (if i mod 2 = 0 then 20 else 20 div 2) * sin (radians (real_of_int (i * 36 - 90))))"

text \<open>The conditions under which no call faults once the font \<open>f\<close> is chosen: both labels
  can be measured, both layers have a size the library accepts, and the file can be written.\<close>

definition runs_with :: "env \<Rightarrow> font \<Rightarrow> bbox \<Rightarrow> bbox \<Rightarrow> bool" where
  "runs_with env f hbox wbox =
     (textbbox_of env f ''Hello'' = Some hbox \<and> box_fits hbox \<and>
      textbbox_of env f ''World'' = Some wbox \<and> box_fits wbox \<and>
      can_write env ''icon.png'')"

subsection \<open>A sample machine\<close>

text \<open>
  One concrete environment, used to run the script on: a font measures a text as a box
  that grows with the font size, painting a text fills that box, a rotation returns the
  image as it is, a polygon covers the square of side 40 under its first vertex, blending
  takes the pasted pixel, and every path can be written. Which font files load is the
  parameter.
\<close>

definition sample_bbox :: "font \<Rightarrow> string \<Rightarrow> bbox option" where
  "sample_bbox f txt =
     (case f of
        FreeTypeFont path sz \<Rightarrow> Some (0, 0, sz * int (length txt) div 2, sz)
      | DefaultFont \<Rightarrow> Some (0, 0, 6 * int (length txt), 11))"

definition sample_text :: "font \<Rightarrow> string \<Rightarrow> color \<Rightarrow> point \<Rightarrow> image \<Rightarrow> image" where
  "sample_text f txt fill xy im =
     (case sample_bbox f txt of
        None \<Rightarrow> im
      | Some box \<Rightarrow>
          im\<lparr>im_pixel := (\<lambda>p. if inside im p \<and> fst xy \<le> fst p \<and> fst p < fst xy + box_width box
                                   \<and> snd xy \<le> snd p \<and> snd p < snd xy + box_height box
                               then fill else im_pixel im p)\<rparr>)"

definition sample_polygon :: "(real \<times> real) list \<Rightarrow> point \<Rightarrow> bool" where
  "sample_polygon pts p =
     (case pts of
        [] \<Rightarrow> False
      | v # _ \<Rightarrow> \<bar>real_of_int (fst p) - fst v\<bar> \<le> 20 \<and> 0 \<le> real_of_int (snd p) - snd v
                 \<and> real_of_int (snd p) - snd v \<le> 40)"

definition sample_env :: "(string \<Rightarrow> int \<Rightarrow> bool) \<Rightarrow> env" where
  "sample_env ok =
     \<lparr>truetype_ok = ok, textbbox_of = sample_bbox, text_render = sample_text,
      rotate_render = (\<lambda>angle expand im. im), polygon_covers = sample_polygon,
      blend = (\<lambda>m under over. over), can_write = (\<lambda>path. True)\<rparr>"

text \<open>Which font files load, on five such machines: the font lies in the working
  directory; it lies only in the Windows font directory; there is none; the font in the
  working directory loads at size 140 only, with the Windows one present, and without.\<close>

definition arial_here :: "string \<Rightarrow> int \<Rightarrow> bool" where
  "arial_here path sz = (path = ''arial.ttf'')"

definition arial_in_windows :: "string \<Rightarrow> int \<Rightarrow> bool" where
  "arial_in_windows path sz = (path = ''C:/Windows/Fonts/arial.ttf'')"

definition no_font_file :: "string \<Rightarrow> int \<Rightarrow> bool" where
  "no_font_file path sz = False"

definition windows_or_large :: "string \<Rightarrow> int \<Rightarrow> bool" where
  "windows_or_large path sz =
     (path = ''C:/Windows/Fonts/arial.ttf'' \<or> (path = ''arial.ttf'' \<and> sz = 140))"

definition arial_large_only :: "string \<Rightarrow> int \<Rightarrow> bool" where
  "arial_large_only path sz = (path = ''arial.ttf'' \<and> sz = 140)"

definition blank :: image where
  "blank = \<lparr>im_mode = ''RGB'', im_size = (16, 16), im_pixel = (\<lambda>_. (0, 0, 0, 255))\<rparr>"

section \<open>Running the script\<close>

lemmas run_defs = bindE_def return_def raise_def try_except_def log_call_def get_image_def
  set_image_def alloc_image_def

lemmas sample_fonts = arial_here_def arial_in_windows_def no_font_file_def windows_or_large_def
  arial_large_only_def

lemma load_fonts_run:
  "load_fonts env \<lparr>heap = hp, files = fs, stdout = out, calls = cs\<rparr> =
     (Inr (chosen_fonts env), \<lparr>heap = hp, files = fs, stdout = out, calls = cs @ font_calls env\<rparr>)"
  by (simp add: load_fonts_def chosen_fonts_def font_calls_def tier_ok_def tier_calls_def
        truetype_def load_default_def run_defs)

lemma load_font_large_run:
  "load_font_large env \<lparr>heap = hp, files = fs, stdout = out, calls = cs\<rparr> =
     (Inr (chosen_font_large env),
      \<lparr>heap = hp, files = fs, stdout = out, calls = cs @ font_large_calls env\<rparr>)"
  by (simp add: load_font_large_def chosen_font_large_def font_large_calls_def
        truetype_def load_default_def run_defs)

lemma ellipse_run:
  "ellipse 0 xy fill outl wd \<lparr>heap = c # hs, files = fs, stdout = out, calls = cs\<rparr> =
     (Inr (), \<lparr>heap = ellipse_px xy fill outl wd c # hs, files = fs, stdout = out,
                calls = cs @ [Ellipse 0 xy fill outl wd]\<rparr>)"
  by (simp add: ellipse_def run_defs)

lemma draw_hello_ok:
  assumes "textbbox_of env f ''Hello'' = Some box" "box_fits box"
  shows "draw_hello env 0 0 (512, 512) f \<lparr>heap = [c], files = fs, stdout = out, calls = cs\<rparr> =
     (Inr (), \<lparr>heap = [paste_px env (hello_rotated env f box) (512 - box_width box div 2 - 50, 325)
                          (hello_rotated env f box) c,
                        label_layer env f ''Hello'' (255, 59, 48, 255) box, hello_rotated env f box],
                files = fs, stdout = out, calls = cs @ hello_calls f box\<rparr>)"
  using assms
  by (cases box)
     (simp add: draw_hello_def hello_rotated_def label_layer_def box_fits_def box_width_def
        box_height_def hello_calls_def Image_new_def ImageDraw_Draw_def textbbox_def
        draw_text_def rotate_def paste_def run_defs Let_def not_less)

lemma draw_world_ok:
  assumes "textbbox_of env f ''World'' = Some box" "box_fits box"
  shows "draw_world env 0 0 (512, 512) f
           \<lparr>heap = [c, hl, hr], files = fs, stdout = out, calls = cs\<rparr> =
     (Inr (), \<lparr>heap = [paste_px env (world_rotated env f box) (512 - box_width box div 2 - 50, 495)
                          (world_rotated env f box) c,
                        hl, hr,
                        label_layer env f ''World'' (0, 122, 255, 255) box, world_rotated env f box],
                files = fs, stdout = out, calls = cs @ world_calls f box\<rparr>)"
  using assms
  by (cases box)
     (simp add: draw_world_def world_rotated_def label_layer_def box_fits_def box_width_def
        box_height_def world_calls_def Image_new_def ImageDraw_Draw_def textbbox_def
        draw_text_def rotate_def paste_def run_defs Let_def not_less)

text \<open>The two loops, by induction on the list of positions.\<close>

lemma for_each_polygon:
  "for_each (\<lambda>pos. polygon env 0 (g pos) col) ps
       \<lparr>heap = c # hs, files = fs, stdout = out, calls = cs\<rparr> =
     (Inr (), \<lparr>heap = foldl (\<lambda>im pos. polygon_px env (g pos) col im) c ps # hs, files = fs,
                stdout = out, calls = cs @ map (\<lambda>pos. Polygon 0 (g pos) col) ps\<rparr>)"
  by (induction ps arbitrary: c cs) (simp_all add: polygon_def run_defs)

lemma for_each_ellipse:
  "for_each (\<lambda>pos. ellipse 0 (g pos) fill outl wd) ps
       \<lparr>heap = c # hs, files = fs, stdout = out, calls = cs\<rparr> =
     (Inr (), \<lparr>heap = foldl (\<lambda>im pos. ellipse_px (g pos) fill outl wd im) c ps # hs, files = fs,
                stdout = out, calls = cs @ map (\<lambda>pos. Ellipse 0 (g pos) fill outl wd) ps\<rparr>)"
  by (induction ps arbitrary: c cs) (simp_all add: ellipse_def run_defs)

lemma draw_stars_run:
  "draw_stars env 0 \<lparr>heap = c # hs, files = fs, stdout = out, calls = cs\<rparr> =
     (Inr (), \<lparr>heap = foldl (\<lambda>im pos. polygon_px env (star_points pos) (255, 215, 0, 200) im) c
                          sparkle_positions # hs,
                files = fs, stdout = out, calls = cs @ star_calls\<rparr>)"
  by (simp add: draw_stars_def star_calls_def for_each_polygon)

lemma draw_hearts_run:
  "draw_hearts 0 \<lparr>heap = c # hs, files = fs, stdout = out, calls = cs\<rparr> =
     (Inr (), \<lparr>heap = foldl (\<lambda>im pos. ellipse_px (fst pos - 15, snd pos - 15, fst pos + 15,
                                                    snd pos + 15)
                                         (Some (255, 105, 180, 150)) None 1 im) c heart_positions # hs,
                files = fs, stdout = out, calls = cs @ heart_calls\<rparr>)"
  by (simp add: draw_hearts_def heart_calls_def for_each_ellipse)

text \<open>A run in which nothing faults ends in \<open>final_world\<close> and returns the path.\<close>

lemma generate_icon_ok:
  assumes "runs_with env (fst (chosen_fonts env)) hbox wbox"
  shows "generate_icon env (init_world fs) =
           (Inr ''icon.png'', final_world env (fst (chosen_fonts env)) (font_calls env) fs hbox wbox)"
  using assms
  by (cases "chosen_fonts env")
     (simp add: generate_icon_def init_world_def runs_with_def final_world_def final_canvas_def
        labelled_def decorate_def background_def draw_stars_run draw_hearts_run ellipse_run
        load_fonts_run draw_hello_ok draw_world_ok
        Image_new_def ImageDraw_Draw_def save_def print_def run_defs Let_def)

lemma without_font_emoji_ok:
  assumes "runs_with env (chosen_font_large env) hbox wbox"
  shows "generate_icon_without_font_emoji env (init_world fs) =
           (Inr ''icon.png'',
            final_world env (chosen_font_large env) (font_large_calls env) fs hbox wbox)"
  using assms
  by (simp add: generate_icon_without_font_emoji_def init_world_def runs_with_def final_world_def
        final_canvas_def labelled_def decorate_def background_def draw_stars_run draw_hearts_run
        ellipse_run load_font_large_run draw_hello_ok draw_world_ok
        Image_new_def ImageDraw_Draw_def save_def print_def run_defs Let_def)

text \<open>The outcome of every run: which call faults first, if any.\<close>

lemma generate_icon_fst:
  "fst (generate_icon env (init_world fs)) =
     (case textbbox_of env (fst (chosen_fonts env)) ''Hello'' of
        None \<Rightarrow> Inl ValueError
      | Some hbox \<Rightarrow>
          if \<not> box_fits hbox then Inl ValueError
          else (case textbbox_of env (fst (chosen_fonts env)) ''World'' of
                 None \<Rightarrow> Inl ValueError
               | Some wbox \<Rightarrow>
                   if \<not> box_fits wbox then Inl ValueError
                   else if can_write env ''icon.png'' then Inr ''icon.png'' else Inl OSError))"
  by (cases "chosen_fonts env")
     (simp add: generate_icon_def init_world_def draw_hello_def draw_world_def box_fits_def
        box_width_def box_height_def
        draw_stars_run draw_hearts_run ellipse_run load_fonts_run
        Image_new_def ImageDraw_Draw_def textbbox_def draw_text_def rotate_def paste_def
        save_def print_def run_defs Let_def not_le
        split: option.split)

lemma generate_icon_Inr:
  assumes "fst (generate_icon env (init_world fs)) = Inr p"
  shows "\<exists>hbox wbox. runs_with env (fst (chosen_fonts env)) hbox wbox"
  using assms
  by (auto simp add: generate_icon_fst runs_with_def split: option.splits if_splits)

text \<open>So a run that returns is described completely.\<close>

lemma generate_icon_returns:
  assumes "generate_icon env (init_world fs) = (Inr p, w')"
  obtains hbox wbox where
    "runs_with env (fst (chosen_fonts env)) hbox wbox"
    "p = ''icon.png''"
    "w' = final_world env (fst (chosen_fonts env)) (font_calls env) fs hbox wbox"
proof -
  from assms have "fst (generate_icon env (init_world fs)) = Inr p" by simp
  then obtain hbox wbox where r: "runs_with env (fst (chosen_fonts env)) hbox wbox"
    using generate_icon_Inr by blast
  from generate_icon_ok [OF r, of fs] assms
  have "p = ''icon.png''"
    and "w' = final_world env (fst (chosen_fonts env)) (font_calls env) fs hbox wbox"
    by simp_all
  with r that show thesis by blast
qed

subsection \<open>What a run leaves unchanged, and how its values are named\<close>

lemma px_frame:
  "im_size (ellipse_px xy fill outl wd im) = im_size im"
  "im_mode (ellipse_px xy fill outl wd im) = im_mode im"
  "im_size (paste_px env src box msk im) = im_size im"
  "im_mode (paste_px env src box msk im) = im_mode im"
  "im_size (polygon_px env pts col im) = im_size im"
  "im_mode (polygon_px env pts col im) = im_mode im"
  by (simp_all add: ellipse_px_def paste_px_def polygon_px_def)

lemma foldl_polygon_px_frame:
  "im_size (foldl (\<lambda>im pos. polygon_px env (g pos) col im) c ps) = im_size c \<and>
   im_mode (foldl (\<lambda>im pos. polygon_px env (g pos) col im) c ps) = im_mode c"
  by (induction ps arbitrary: c) (simp_all add: px_frame)

lemma foldl_ellipse_px_frame:
  "im_size (foldl (\<lambda>im pos. ellipse_px (g pos) fill outl wd im) c ps) = im_size c \<and>
   im_mode (foldl (\<lambda>im pos. ellipse_px (g pos) fill outl wd im) c ps) = im_mode c"
  by (induction ps arbitrary: c) (simp_all add: px_frame)

lemma final_canvas_frame:
  "im_size (final_canvas env f hbox wbox) = (1024, 1024) \<and>
   im_mode (final_canvas env f hbox wbox) = ''RGBA''"
  by (simp add: final_canvas_def decorate_def labelled_def background_def
        foldl_polygon_px_frame foldl_ellipse_px_frame px_frame)

lemma load_fonts_fst:
  "fst (load_fonts env (init_world fs)) = Inr (chosen_fonts env)"
  by (simp add: init_world_def load_fonts_run)

lemma run_named:
  assumes "generate_icon env (init_world fs) = (Inr p, w')"
      and "fst (load_fonts env (init_world fs)) = Inr (font_large, font_emoji)"
      and "textbbox_of env font_large ''Hello'' = Some hbox"
      and "textbbox_of env font_large ''World'' = Some wbox"
  shows "w' = final_world env font_large (font_calls env) fs hbox wbox"
    and "runs_with env font_large hbox wbox"
    and "chosen_fonts env = (font_large, font_emoji)"
proof -
  from assms(2) show cf: "chosen_fonts env = (font_large, font_emoji)"
    by (simp add: load_fonts_fst)
  from assms(1) obtain hbox' wbox' where
    r: "runs_with env (fst (chosen_fonts env)) hbox' wbox'" and
    w': "w' = final_world env (fst (chosen_fonts env)) (font_calls env) fs hbox' wbox'"
    by (rule generate_icon_returns)
  from r cf assms(3,4) have "hbox' = hbox" "wbox' = wbox"
    by (simp_all add: runs_with_def)
  with r w' cf show "w' = final_world env font_large (font_calls env) fs hbox wbox"
    and "runs_with env font_large hbox wbox" by simp_all
qed

lemma font_calls_filter:
  assumes "\<And>c. P c \<Longrightarrow> \<not> is_Truetype c \<and> \<not> is_LoadDefault c"
  shows "filter P (font_calls env) = []"
proof -
  have "\<forall>c \<in> set (font_calls env). is_Truetype c \<or> is_LoadDefault c"
    by (simp add: font_calls_def tier_calls_def)
  with assms show ?thesis by (auto simp add: filter_empty_conv)
qed

subsection \<open>The vertices of a star\<close>

text \<open>The inner loop appends one vertex for each element of the range, in order.\<close>

lemma foldl_append_map:
  "foldl (\<lambda>points i. points @ [g i]) acc xs = acc @ map g xs"
  by (induction xs arbitrary: acc) simp_all

lemma star_points_map: "star_points pos = map (star_vertex pos) [0..9]"
  using foldl_append_map [of "star_vertex pos" "[]" "[0..9]"]
  by (simp add: star_points_def star_vertex_def Let_def)

lemma star_points_length: "length (star_points pos) = 10"
  by (simp add: star_points_map)

lemma star_points_nth:
  assumes "i < 10"
  shows "star_points pos ! i = star_vertex pos (int i)"
  using assms by (simp add: star_points_map)

lemma radians_quarter: "radians (- 90) = - (pi / 2)" "radians 90 = pi / 2"
  by (simp_all add: radians_def)

lemma star_vertex_0: "star_vertex pos 0 = (real_of_int (fst pos), real_of_int (snd pos) - 20)"
  by (simp add: star_vertex_def radians_quarter)

lemma star_points_hd: "hd (star_points pos) = (real_of_int (fst pos), real_of_int (snd pos) - 20)"
proof -
  have "star_points pos ! 0 = star_vertex pos (int 0)"
    by (rule star_points_nth) simp
  moreover have "star_points pos \<noteq> []"
    using star_points_length [of pos] by auto
  ultimately show ?thesis
    by (simp add: hd_conv_nth star_vertex_0)
qed

lemma star_vertex_near:
  "\<bar>fst (star_vertex pos i) - real_of_int (fst pos)\<bar> \<le> 20 \<and>
   \<bar>snd (star_vertex pos i) - real_of_int (snd pos)\<bar> \<le> 20"
proof -
  have c: "\<bar>cos x\<bar> \<le> 1" and s: "\<bar>sin x\<bar> \<le> 1" for x :: real
    by simp_all
  have "\<bar>r * cos x\<bar> \<le> 20 \<and> \<bar>r * sin x\<bar> \<le> 20" if "r = 20 \<or> r = 10" for r x :: real
  proof -
    from that have "\<bar>r\<bar> \<le> 20" by auto
    then have "\<bar>r\<bar> * \<bar>cos x\<bar> \<le> 20 * 1" "\<bar>r\<bar> * \<bar>sin x\<bar> \<le> 20 * 1"
      using c [of x] s [of x] by (intro mult_mono; simp)+
    then show ?thesis by (simp add: abs_mult)
  qed
  then show ?thesis
    by (simp add: star_vertex_def)
qed

lemma star_points_near:
  assumes "v \<in> set (star_points pos)"
  shows "\<bar>fst v - real_of_int (fst pos)\<bar> \<le> 20 \<and> \<bar>snd v - real_of_int (snd pos)\<bar> \<le> 20"
proof -
  from assms obtain i where "v = star_vertex pos i"
    by (auto simp add: star_points_map)
  then show ?thesis using star_vertex_near [of pos i] by simp
qed


lemma background_size: "im_size background = (1024, 1024)"
  by (simp add: background_def px_frame)

lemma background_400: "im_pixel background (400, 400) = (248, 249, 250, 255)"
  by (simp add: background_def ellipse_px_def inside_def in_ellipse_def inset_def)

subsection \<open>The sample machine runs the script\<close>

lemma sample_chosen_1:
  "chosen_fonts (sample_env arial_here) =
     (FreeTypeFont ''arial.ttf'' 140, FreeTypeFont ''arial.ttf'' 40)"
  by (simp add: chosen_fonts_def tier_ok_def sample_env_def sample_fonts)

lemma sample_chosen_2:
  "chosen_fonts (sample_env arial_in_windows) =
     (FreeTypeFont ''C:/Windows/Fonts/arial.ttf'' 140, FreeTypeFont ''C:/Windows/Fonts/arial.ttf'' 40)"
  by (simp add: chosen_fonts_def tier_ok_def sample_env_def sample_fonts)

lemma sample_chosen_3:
  "chosen_fonts (sample_env no_font_file) = (DefaultFont, DefaultFont)"
  by (simp add: chosen_fonts_def tier_ok_def sample_env_def sample_fonts)

lemma sample_runs_freetype:
  "runs_with (sample_env ok) (FreeTypeFont path 140) (0, 0, 350, 140) (0, 0, 350, 140)"
  by (simp add: runs_with_def sample_env_def sample_fonts sample_bbox_def box_fits_def box_width_def
        box_height_def)

lemma sample_runs_default:
  "runs_with (sample_env ok) DefaultFont (0, 0, 30, 11) (0, 0, 30, 11)"
  by (simp add: runs_with_def sample_env_def sample_fonts sample_bbox_def box_fits_def box_width_def
        box_height_def)

lemma sample_run_fst:
  assumes "runs_with (sample_env ok) (fst (chosen_fonts (sample_env ok))) hbox wbox"
  shows "generate_icon (sample_env ok) (init_world fs) =
           (Inr ''icon.png'', snd (generate_icon (sample_env ok) (init_world fs)))"
  using generate_icon_ok [OF assms, of fs] by simp

lemma sample_tier1_run:
  "generate_icon (sample_env arial_here) (init_world Map.empty) =
     (Inr ''icon.png'',
      snd (generate_icon (sample_env arial_here) (init_world Map.empty)))"
  by (rule sample_run_fst [of _ "(0, 0, 350, 140)" "(0, 0, 350, 140)"])
     (simp add: sample_chosen_1 sample_runs_freetype)

lemma sample_tier1_fonts:
  "fst (load_fonts (sample_env arial_here) (init_world Map.empty)) =
     Inr (FreeTypeFont ''arial.ttf'' 140, FreeTypeFont ''arial.ttf'' 40)"
  by (simp add: load_fonts_fst sample_chosen_1)

lemma sample_tier1_boxes:
  "textbbox_of (sample_env ok) (FreeTypeFont ''arial.ttf'' 140) ''Hello'' = Some (0, 0, 350, 140)"
  "textbbox_of (sample_env ok) (FreeTypeFont ''arial.ttf'' 140) ''World'' = Some (0, 0, 350, 140)"
  by (simp_all add: sample_env_def sample_fonts sample_bbox_def)

lemma sample_polygon_star:
  "sample_polygon (star_points pos) p =
     (\<bar>real_of_int (fst p) - real_of_int (fst pos)\<bar> \<le> 20 \<and>
      0 \<le> real_of_int (snd p) - (real_of_int (snd pos) - 20) \<and>
      real_of_int (snd p) - (real_of_int (snd pos) - 20) \<le> 40)"
proof -
  have "star_points pos \<noteq> []"
    using star_points_length [of pos] by auto
  then obtain v vs where vs: "star_points pos = v # vs"
    by (cases "star_points pos") auto
  with star_points_hd [of pos] have "v = (real_of_int (fst pos), real_of_int (snd pos) - 20)"
    by simp
  with vs show ?thesis
    by (simp add: sample_polygon_def)
qed

lemma sample_final_world:
  assumes "runs_with (sample_env ok) (fst (chosen_fonts (sample_env ok))) hbox wbox"
  shows "snd (generate_icon (sample_env ok) (init_world fs)) =
           final_world (sample_env ok) (fst (chosen_fonts (sample_env ok)))
             (font_calls (sample_env ok)) fs hbox wbox"
  using generate_icon_ok [OF assms, of fs] by simp

lemma sample_layers:
  "hello_rotated (sample_env ok) f box =
     sample_text f ''Hello'' (255, 59, 48, 255) (50, 25)
       \<lparr>im_mode = ''RGBA'', im_size = (box_width box + 100, box_height box + 50),
        im_pixel = (\<lambda>_. (0, 0, 0, 0))\<rparr>"
  "world_rotated (sample_env ok) f box =
     sample_text f ''World'' (0, 122, 255, 255) (50, 25)
       \<lparr>im_mode = ''RGBA'', im_size = (box_width box + 100, box_height box + 50),
        im_pixel = (\<lambda>_. (0, 0, 0, 0))\<rparr>"
  by (simp_all add: hello_rotated_def world_rotated_def label_layer_def sample_env_def sample_fonts)

lemma sample_decorate_400:
  "im_pixel (decorate (sample_env ok) c) (400, 400) = im_pixel c (400, 400)"
proof -
  have pc: "polygon_covers (sample_env ok) = sample_polygon"
    by (simp add: sample_env_def sample_fonts)
  show ?thesis
    by (simp add: decorate_def sparkle_positions_def heart_positions_def polygon_px_def
          ellipse_px_def in_ellipse_def pc sample_polygon_star)
qed

lemma sample_labelled_400_default:
  "im_pixel (labelled (sample_env ok) DefaultFont (0, 0, 30, 11) (0, 0, 30, 11)) (400, 400) =
     (248, 249, 250, 255)"
  by (simp add: labelled_def paste_px_def px_frame background_400 sample_layers sample_text_def
        sample_bbox_def box_width_def box_height_def inside_def alpha_def background_size Let_def)

lemma sample_labelled_400_freetype:
  "im_pixel (labelled (sample_env ok) (FreeTypeFont path 140) (0, 0, 350, 140) (0, 0, 350, 140))
     (400, 400) = (255, 59, 48, 255)"
  by (simp add: labelled_def paste_px_def px_frame background_400 sample_layers sample_text_def
        sample_bbox_def box_width_def box_height_def inside_def alpha_def background_size Let_def)

section \<open>The claims\<close>

text \<open>
  Claim C1. In every run in which no call faults, \<^verbatim>\<open>generate_icon\<close> returns the string
  \<^verbatim>\<open>icon.png\<close>; the files on disk are the ones found at the start with \<^verbatim>\<open>icon.png\<close>
  replaced by the canvas in PNG format, whatever that path held before; saving is the last
  library call and one line is printed. This holds for every environment, hence for
  each of the three font tiers.
\<close>

theorem generate_icon_writes_icon_png:
  assumes "generate_icon env (init_world fs) = (Inr p, w')"
  shows "p = ''icon.png'' \<and>
         (\<exists>im rest. heap w' = im # rest \<and> files w' = fs(''icon.png'' \<mapsto> (''PNG'', im))) \<and>
         last (calls w') = Save 0 ''icon.png'' ''PNG'' True \<and>
         stdout w' = [''Icon generated successfully as icon.png'']"
proof -
  from assms obtain hbox wbox where
    "p = ''icon.png''"
    "w' = final_world env (fst (chosen_fonts env)) (font_calls env) fs hbox wbox"
    by (rule generate_icon_returns)
  then show ?thesis by (simp add: final_world_def)
qed

text \<open>The sample machine with the font file in the working directory and an old
  \<^verbatim>\<open>icon.png\<close> on disk, with the font only at its Windows path, and with no font file at all:
  the three tiers.\<close>

theorem generate_icon_writes_icon_png_witness:
  "(let w = snd (generate_icon (sample_env arial_here)
                   (init_world [''icon.png'' \<mapsto> (''JPEG'', blank)]))
    in fst (generate_icon (sample_env arial_here)
                   (init_world [''icon.png'' \<mapsto> (''JPEG'', blank)])) = Inr ''icon.png'' \<and>
       map_option fst (files w ''icon.png'') = Some ''PNG'' \<and>
       last (calls w) = Save 0 ''icon.png'' ''PNG'' True) \<and>
   (let w = snd (generate_icon (sample_env arial_in_windows)
                   (init_world Map.empty))
    in fst (generate_icon (sample_env arial_in_windows)
                   (init_world Map.empty)) = Inr ''icon.png'' \<and>
       map_option fst (files w ''icon.png'') = Some ''PNG'' \<and>
       last (calls w) = Save 0 ''icon.png'' ''PNG'' True) \<and>
   (let w = snd (generate_icon (sample_env no_font_file) (init_world Map.empty))
    in fst (generate_icon (sample_env no_font_file) (init_world Map.empty)) = Inr ''icon.png'' \<and>
       map_option fst (files w ''icon.png'') = Some ''PNG'' \<and>
       last (calls w) = Save 0 ''icon.png'' ''PNG'' True)"
proof -
  let ?E1 = "sample_env arial_here"
  let ?E2 = "sample_env arial_in_windows"
  let ?E3 = "sample_env no_font_file"
  let ?fs = "[''icon.png'' \<mapsto> (''JPEG'', blank)]"
  have f1: "fst (generate_icon ?E1 (init_world ?fs)) = Inr ''icon.png''"
    using generate_icon_ok [of ?E1 "(0, 0, 350, 140)" "(0, 0, 350, 140)" ?fs]
    by (simp add: sample_chosen_1 sample_runs_freetype)
  have f2: "fst (generate_icon ?E2 (init_world Map.empty)) = Inr ''icon.png''"
    using generate_icon_ok [of ?E2 "(0, 0, 350, 140)" "(0, 0, 350, 140)" Map.empty]
    by (simp add: sample_chosen_2 sample_runs_freetype)
  have f3: "fst (generate_icon ?E3 (init_world Map.empty)) = Inr ''icon.png''"
    using generate_icon_ok [of ?E3 "(0, 0, 30, 11)" "(0, 0, 30, 11)" Map.empty]
    by (simp add: sample_chosen_3 sample_runs_default)
  have r1: "generate_icon ?E1 (init_world ?fs) = (Inr ''icon.png'', snd (generate_icon ?E1 (init_world ?fs)))"
    using f1 by (simp add: prod_eq_iff)
  have r2: "generate_icon ?E2 (init_world Map.empty) = (Inr ''icon.png'', snd (generate_icon ?E2 (init_world Map.empty)))"
    using f2 by (simp add: prod_eq_iff)
  have r3: "generate_icon ?E3 (init_world Map.empty) = (Inr ''icon.png'', snd (generate_icon ?E3 (init_world Map.empty)))"
    using f3 by (simp add: prod_eq_iff)
  from generate_icon_writes_icon_png [OF r1] generate_icon_writes_icon_png [OF r2]
       generate_icon_writes_icon_png [OF r3] f1 f2 f3
  show ?thesis by (auto simp add: Let_def)
qed


text \<open>
  Claim C2. The first call of \<^verbatim>\<open>generate_icon\<close> creates the canvas: an RGBA image of
  1024 by 1024 pixels, every pixel the opaque colour (248, 249, 250, 255). The image written
  to \<^verbatim>\<open>icon.png\<close> by the last call has the same size and mode.
\<close>

theorem canvas_is_1024_square_rgba:
  "Image_new ''RGBA'' (1024, 1024) (248, 249, 250, 255) (init_world fs) =
     (Inr 0, \<lparr>heap = [\<lparr>im_mode = ''RGBA'', im_size = (1024, 1024),
                         im_pixel = (\<lambda>_. (248, 249, 250, 255))\<rparr>],
                files = fs, stdout = [],
                calls = [New ''RGBA'' (1024, 1024) (248, 249, 250, 255) (Some 0)]\<rparr>) \<and>
   alpha (248, 249, 250, 255) = 255 \<and>
   (generate_icon env (init_world fs) = (Inr p, w') \<longrightarrow>
      hd (calls w') = New ''RGBA'' (1024, 1024) (248, 249, 250, 255) (Some 0) \<and>
      last (calls w') = Save 0 ''icon.png'' ''PNG'' True \<and>
      (\<exists>im. files w' ''icon.png'' = Some (''PNG'', im) \<and>
            im_size im = (1024, 1024) \<and> im_mode im = ''RGBA''))"
proof (intro conjI impI)
  show "Image_new ''RGBA'' (1024, 1024) (248, 249, 250, 255) (init_world fs) =
     (Inr 0, \<lparr>heap = [\<lparr>im_mode = ''RGBA'', im_size = (1024, 1024),
                         im_pixel = (\<lambda>_. (248, 249, 250, 255))\<rparr>],
                files = fs, stdout = [],
                calls = [New ''RGBA'' (1024, 1024) (248, 249, 250, 255) (Some 0)]\<rparr>)"
    by (simp add: Image_new_def init_world_def run_defs)
  show "alpha (248, 249, 250, 255) = 255"
    by (simp add: alpha_def)
next
  assume "generate_icon env (init_world fs) = (Inr p, w')"
  then obtain hbox wbox where
    w': "w' = final_world env (fst (chosen_fonts env)) (font_calls env) fs hbox wbox"
    by (rule generate_icon_returns)
  show "hd (calls w') = New ''RGBA'' (1024, 1024) (248, 249, 250, 255) (Some 0)"
    and "last (calls w') = Save 0 ''icon.png'' ''PNG'' True"
    and "\<exists>im. files w' ''icon.png'' = Some (''PNG'', im) \<and>
              im_size im = (1024, 1024) \<and> im_mode im = ''RGBA''"
    by (simp_all add: w' final_world_def final_canvas_frame)
qed

theorem canvas_is_1024_square_rgba_witness:
  "(let w = snd (generate_icon (sample_env no_font_file) (init_world Map.empty))
    in hd (calls w) = New ''RGBA'' (1024, 1024) (248, 249, 250, 255) (Some 0) \<and>
       map_option (\<lambda>(fmt, im). (fmt, im_size im, im_mode im)) (files w ''icon.png'') =
         Some (''PNG'', (1024, 1024), ''RGBA''))"
proof -
  let ?E = "sample_env no_font_file"
  have r: "generate_icon ?E (init_world Map.empty) =
             (Inr ''icon.png'', snd (generate_icon ?E (init_world Map.empty)))"
    by (rule sample_run_fst [of _ "(0, 0, 30, 11)" "(0, 0, 30, 11)"])
       (simp add: sample_chosen_3 sample_runs_default)
  from canvas_is_1024_square_rgba [of Map.empty ?E "''icon.png''"
         "snd (generate_icon ?E (init_world Map.empty))"] r
  show ?thesis
    by (auto simp add: Let_def)
qed

text \<open>
  Claim C3. The fonts are resolved by one pass through three tiers: \<^verbatim>\<open>arial.ttf\<close> at sizes
  140 and 40, then \<^verbatim>\<open>C:/Windows/Fonts/arial.ttf\<close> at the same sizes, then the built-in font.
  A tier that raises is dropped without a trace on the console, the pass never faults, and it
  only adds font calls to the world. In a run, those calls come before every text call, and
  the large font they yield is the one both labels are measured and drawn with.
\<close>

theorem font_chain_three_tiers:
  "\<exists>f fe cs.
     (f, fe) = (if tier_ok env ''arial.ttf''
                then (FreeTypeFont ''arial.ttf'' 140, FreeTypeFont ''arial.ttf'' 40)
                else if tier_ok env ''C:/Windows/Fonts/arial.ttf''
                then (FreeTypeFont ''C:/Windows/Fonts/arial.ttf'' 140,
                      FreeTypeFont ''C:/Windows/Fonts/arial.ttf'' 40)
                else (DefaultFont, DefaultFont)) \<and>
     cs = tier_calls env ''arial.ttf'' @
          (if tier_ok env ''arial.ttf'' then []
           else tier_calls env ''C:/Windows/Fonts/arial.ttf'' @
                (if tier_ok env ''C:/Windows/Fonts/arial.ttf'' then []
                 else [LoadDefault DefaultFont, LoadDefault DefaultFont])) \<and>
     load_fonts env w = (Inr (f, fe), w\<lparr>calls := calls w @ cs\<rparr>) \<and>
     (generate_icon env (init_world fs) = (Inr p, w') \<longrightarrow>
        [c \<leftarrow> calls w'. is_Truetype c \<or> is_LoadDefault c \<or> is_Textbbox c \<or> is_Text c] =
          cs @ [Textbbox 0 (0, 0) ''Hello'' f (textbbox_of env f ''Hello''),
                Text 1 (50, 25) ''Hello'' f (255, 59, 48, 255),
                Textbbox 0 (0, 0) ''World'' f (textbbox_of env f ''World''),
                Text 3 (50, 25) ''World'' f (0, 122, 255, 255)] \<and>
        stdout w' = [''Icon generated successfully as icon.png''])"
proof -
  obtain f fe where cf: "chosen_fonts env = (f, fe)"
    by (cases "chosen_fonts env")
  have fc: "[c \<leftarrow> font_calls env. is_Truetype c \<or> is_LoadDefault c \<or> is_Textbbox c \<or> is_Text c]
              = font_calls env"
    by (simp add: font_calls_def tier_calls_def)
  have lf: "load_fonts env w = (Inr (f, fe), w\<lparr>calls := calls w @ font_calls env\<rparr>)"
    using load_fonts_run [of env "heap w" "files w" "stdout w" "calls w"] cf
    by (cases w) simp
  have run: "[c \<leftarrow> calls w'. is_Truetype c \<or> is_LoadDefault c \<or> is_Textbbox c \<or> is_Text c] =
       font_calls env @ [Textbbox 0 (0, 0) ''Hello'' f (textbbox_of env f ''Hello''),
             Text 1 (50, 25) ''Hello'' f (255, 59, 48, 255),
             Textbbox 0 (0, 0) ''World'' f (textbbox_of env f ''World''),
             Text 3 (50, 25) ''World'' f (0, 122, 255, 255)] \<and>
       stdout w' = [''Icon generated successfully as icon.png'']"
    if "generate_icon env (init_world fs) = (Inr p, w')"
  proof -
    from that obtain hbox wbox where
      r: "runs_with env (fst (chosen_fonts env)) hbox wbox" and
      w': "w' = final_world env (fst (chosen_fonts env)) (font_calls env) fs hbox wbox"
      by (rule generate_icon_returns)
    from r cf show ?thesis
      by (simp add: w' final_world_def fc hello_calls_def world_calls_def star_calls_def
            heart_calls_def sparkle_positions_def heart_positions_def runs_with_def)
  qed
  have "(f, fe) = chosen_fonts env" using cf by simp
  with lf run show ?thesis
    unfolding chosen_fonts_def font_calls_def by blast
qed


text \<open>The sample machine on which \<^verbatim>\<open>arial.ttf\<close> loads at size 140 only: the first tier is
  abandoned at its second load and the second tier serves both labels.\<close>

theorem font_chain_three_tiers_witness:
  "[c \<leftarrow> calls (snd (generate_icon
                        (sample_env windows_or_large)
                        (init_world Map.empty))).
      is_Truetype c \<or> is_LoadDefault c \<or> is_Textbbox c \<or> is_Text c] =
     [Truetype ''arial.ttf'' 140 (Some (FreeTypeFont ''arial.ttf'' 140)),
      Truetype ''arial.ttf'' 40 None,
      Truetype ''C:/Windows/Fonts/arial.ttf'' 140 (Some (FreeTypeFont ''C:/Windows/Fonts/arial.ttf'' 140)),
      Truetype ''C:/Windows/Fonts/arial.ttf'' 40 (Some (FreeTypeFont ''C:/Windows/Fonts/arial.ttf'' 40)),
      Textbbox 0 (0, 0) ''Hello'' (FreeTypeFont ''C:/Windows/Fonts/arial.ttf'' 140) (Some (0, 0, 350, 140)),
      Text 1 (50, 25) ''Hello'' (FreeTypeFont ''C:/Windows/Fonts/arial.ttf'' 140) (255, 59, 48, 255),
      Textbbox 0 (0, 0) ''World'' (FreeTypeFont ''C:/Windows/Fonts/arial.ttf'' 140) (Some (0, 0, 350, 140)),
      Text 3 (50, 25) ''World'' (FreeTypeFont ''C:/Windows/Fonts/arial.ttf'' 140) (0, 122, 255, 255)]"
proof -
  let ?E = "sample_env windows_or_large"
  have cf: "chosen_fonts ?E = (FreeTypeFont ''C:/Windows/Fonts/arial.ttf'' 140,
                               FreeTypeFont ''C:/Windows/Fonts/arial.ttf'' 40)"
    by (simp add: chosen_fonts_def tier_ok_def sample_env_def sample_fonts)
  have r: "generate_icon ?E (init_world Map.empty) =
             (Inr ''icon.png'', snd (generate_icon ?E (init_world Map.empty)))"
    by (rule sample_run_fst [of _ "(0, 0, 350, 140)" "(0, 0, 350, 140)"])
       (simp add: cf sample_runs_freetype)
  from font_chain_three_tiers [of ?E _ Map.empty "''icon.png''"
         "snd (generate_icon ?E (init_world Map.empty))"] r
  show ?thesis
    by (simp add: tier_ok_def tier_calls_def sample_env_def sample_fonts sample_bbox_def)
qed

text \<open>
  Claim C4. For each label, with the box \<open>(l, t, r, b)\<close> the resolved font measures for it,
  the layer is created in mode RGBA with size \<open>(r - l + 100, b - t + 50)\<close> and every pixel
  (0, 0, 0, 0), and the label is drawn on that layer at (50, 25): "Hello" in
  (255, 59, 48, 255), "World" in (0, 122, 255, 255).
\<close>

theorem label_layers_sized_and_drawn:
  assumes "generate_icon env (init_world fs) = (Inr p, w')"
      and "fst (load_fonts env (init_world fs)) = Inr (font_large, font_emoji)"
      and "textbbox_of env font_large ''Hello'' = Some (hl, ht, hr, hb)"
      and "textbbox_of env font_large ''World'' = Some (wl, wt, wr, wb)"
  shows "[c \<leftarrow> calls w'. is_Textbbox c \<or> is_New c \<or> is_Draw c \<or> is_Text c] =
           [New ''RGBA'' (1024, 1024) (248, 249, 250, 255) (Some 0),
            Draw 0,
            Textbbox 0 (0, 0) ''Hello'' font_large (Some (hl, ht, hr, hb)),
            New ''RGBA'' (hr - hl + 100, hb - ht + 50) (0, 0, 0, 0) (Some 1),
            Draw 1,
            Text 1 (50, 25) ''Hello'' font_large (255, 59, 48, 255),
            Textbbox 0 (0, 0) ''World'' font_large (Some (wl, wt, wr, wb)),
            New ''RGBA'' (wr - wl + 100, wb - wt + 50) (0, 0, 0, 0) (Some 3),
            Draw 3,
            Text 3 (50, 25) ''World'' font_large (0, 122, 255, 255)] \<and>
         (\<exists>canvas hello_rot world_rot.
            heap w' =
              [canvas,
               text_render env font_large ''Hello'' (255, 59, 48, 255) (50, 25)
                 \<lparr>im_mode = ''RGBA'', im_size = (hr - hl + 100, hb - ht + 50),
                  im_pixel = (\<lambda>_. (0, 0, 0, 0))\<rparr>,
               hello_rot,
               text_render env font_large ''World'' (0, 122, 255, 255) (50, 25)
                 \<lparr>im_mode = ''RGBA'', im_size = (wr - wl + 100, wb - wt + 50),
                  im_pixel = (\<lambda>_. (0, 0, 0, 0))\<rparr>,
               world_rot])"
proof -
  have w': "w' = final_world env font_large (font_calls env) fs (hl, ht, hr, hb) (wl, wt, wr, wb)"
    using assms by (rule run_named)
  have fc: "[c \<leftarrow> font_calls env. is_Textbbox c \<or> is_New c \<or> is_Draw c \<or> is_Text c] = []"
    by (rule font_calls_filter) auto
  show ?thesis
    by (simp add: w' final_world_def fc hello_calls_def world_calls_def star_calls_def
          heart_calls_def sparkle_positions_def heart_positions_def label_layer_def
          box_width_def box_height_def)
qed

theorem label_layers_sized_and_drawn_witness:
  "[c \<leftarrow> calls (snd (generate_icon (sample_env arial_here)
                        (init_world Map.empty))).
      is_Textbbox c \<or> is_New c \<or> is_Draw c \<or> is_Text c] =
     [New ''RGBA'' (1024, 1024) (248, 249, 250, 255) (Some 0),
      Draw 0,
      Textbbox 0 (0, 0) ''Hello'' (FreeTypeFont ''arial.ttf'' 140) (Some (0, 0, 350, 140)),
      New ''RGBA'' (450, 190) (0, 0, 0, 0) (Some 1),
      Draw 1,
      Text 1 (50, 25) ''Hello'' (FreeTypeFont ''arial.ttf'' 140) (255, 59, 48, 255),
      Textbbox 0 (0, 0) ''World'' (FreeTypeFont ''arial.ttf'' 140) (Some (0, 0, 350, 140)),
      New ''RGBA'' (450, 190) (0, 0, 0, 0) (Some 3),
      Draw 3,
      Text 3 (50, 25) ''World'' (FreeTypeFont ''arial.ttf'' 140) (0, 122, 255, 255)]"
  using label_layers_sized_and_drawn
          [OF sample_tier1_run sample_tier1_fonts sample_tier1_boxes(1) sample_tier1_boxes(2)]
  by simp



text \<open>
  Claim C6. Each rotated layer is pasted onto the canvas with itself as the mask, at
  \<open>x = 512 - width div 2 - 50\<close> for the measured width of its label, and at \<open>y = 350 - 25\<close>
  for "Hello" and \<open>y = 520 - 25\<close> for "World".
\<close>

theorem labels_pasted_with_own_mask:
  assumes "generate_icon env (init_world fs) = (Inr p, w')"
      and "fst (load_fonts env (init_world fs)) = Inr (font_large, font_emoji)"
      and "textbbox_of env font_large ''Hello'' = Some (hl, ht, hr, hb)"
      and "textbbox_of env font_large ''World'' = Some (wl, wt, wr, wb)"
  shows "[c \<leftarrow> calls w'. is_Rotate c \<or> is_Paste c] =
           [Rotate 1 (- 8) True 2,
            Paste 0 2 (512 - (hr - hl) div 2 - 50, 350 - 25) 2,
            Rotate 3 5 True 4,
            Paste 0 4 (512 - (wr - wl) div 2 - 50, 520 - 25) 4]"
proof -
  have w': "w' = final_world env font_large (font_calls env) fs (hl, ht, hr, hb) (wl, wt, wr, wb)"
    using assms by (rule run_named)
  have fc: "[c \<leftarrow> font_calls env. is_Rotate c \<or> is_Paste c] = []"
    by (rule font_calls_filter) auto
  show ?thesis
    by (simp add: w' final_world_def fc hello_calls_def world_calls_def star_calls_def
          heart_calls_def sparkle_positions_def heart_positions_def
          box_width_def box_height_def)
qed


theorem labels_pasted_with_own_mask_witness:
  "[c \<leftarrow> calls (snd (generate_icon (sample_env arial_here)
                        (init_world Map.empty))).
      is_Rotate c \<or> is_Paste c] =
     [Rotate 1 (- 8) True 2, Paste 0 2 (287, 325) 2, Rotate 3 5 True 4, Paste 0 4 (287, 495) 4]"
  using labels_pasted_with_own_mask
          [OF sample_tier1_run sample_tier1_fonts sample_tier1_boxes(1) sample_tier1_boxes(2)]
  by simp

text \<open>
  Claim C7. Each of the four stars is one polygon call with the fill (255, 215, 0, 200). Its
  vertex list has exactly 10 entries; entry \<open>i\<close> is the point at angle \<open>36 i - 90\<close> degrees and
  radius 20 for even \<open>i\<close>, 10 for odd \<open>i\<close>, around the star's position, so entry 0 is the
  point 20 above the position. Coordinates are real numbers here.
\<close>

theorem star_polygons:
  "length (star_points pos) = 10 \<and>
   (\<forall>i<10. star_points pos ! i =
      (real_of_int (fst pos)
         + (if even i then 20 else 10) * cos (radians (real_of_int (int i * 36 - 90))),
       real_of_int (snd pos)
         + (if even i then 20 else 10) * sin (radians (real_of_int (int i * 36 - 90))))) \<and>
   star_points pos ! 0 = (real_of_int (fst pos), real_of_int (snd pos) - 20) \<and>
   (generate_icon env (init_world fs) = (Inr p, w') \<longrightarrow>
      [c \<leftarrow> calls w'. is_Polygon c] =
        [Polygon 0 (star_points (180, 200)) (255, 215, 0, 200),
         Polygon 0 (star_points (844, 180)) (255, 215, 0, 200),
         Polygon 0 (star_points (160, 780)) (255, 215, 0, 200),
         Polygon 0 (star_points (860, 820)) (255, 215, 0, 200)])"
proof (intro conjI allI impI)
  show "length (star_points pos) = 10"
    by (rule star_points_length)
next
  fix i :: nat
  assume i: "i < 10"
  have "(int i mod 2 = 0) = even i"
    by presburger
  then show "star_points pos ! i =
      (real_of_int (fst pos)
         + (if even i then 20 else 10) * cos (radians (real_of_int (int i * 36 - 90))),
       real_of_int (snd pos)
         + (if even i then 20 else 10) * sin (radians (real_of_int (int i * 36 - 90))))"
    using star_points_nth [OF i, of pos] by (simp add: star_vertex_def)
next
  show "star_points pos ! 0 = (real_of_int (fst pos), real_of_int (snd pos) - 20)"
    using star_points_nth [of 0 pos] by (simp add: star_vertex_0)
next
  assume "generate_icon env (init_world fs) = (Inr p, w')"
  then obtain hbox wbox where
    w': "w' = final_world env (fst (chosen_fonts env)) (font_calls env) fs hbox wbox"
    by (rule generate_icon_returns)
  have fc: "[c \<leftarrow> font_calls env. is_Polygon c] = []"
    by (rule font_calls_filter) auto
  show "[c \<leftarrow> calls w'. is_Polygon c] =
        [Polygon 0 (star_points (180, 200)) (255, 215, 0, 200),
         Polygon 0 (star_points (844, 180)) (255, 215, 0, 200),
         Polygon 0 (star_points (160, 780)) (255, 215, 0, 200),
         Polygon 0 (star_points (860, 820)) (255, 215, 0, 200)]"
    by (simp add: w' final_world_def fc hello_calls_def world_calls_def star_calls_def
          heart_calls_def sparkle_positions_def heart_positions_def)
qed

theorem star_polygons_witness:
  "[c \<leftarrow> calls (snd (generate_icon (sample_env arial_here)
                        (init_world Map.empty))). is_Polygon c] =
     [Polygon 0 (star_points (180, 200)) (255, 215, 0, 200),
      Polygon 0 (star_points (844, 180)) (255, 215, 0, 200),
      Polygon 0 (star_points (160, 780)) (255, 215, 0, 200),
      Polygon 0 (star_points (860, 820)) (255, 215, 0, 200)] \<and>
   length (star_points (180, 200)) = 10 \<and>
   star_points (180, 200) ! 0 = (180, 180) \<and>
   star_points (180, 200) ! 5 = (180, 210)"
proof -
  let ?E = "sample_env arial_here"
  note t = star_polygons [of "(180, 200)" ?E Map.empty "''icon.png''"
             "snd (generate_icon ?E (init_world Map.empty))"]
  have five: "star_points (180, 200) ! 5 = (180, 210)"
    using t [THEN conjunct2, THEN conjunct1, rule_format, of 5]
    by (simp add: radians_quarter)
  have zero: "star_points (180, 200) ! 0 = (180, 180)"
    using t [THEN conjunct2, THEN conjunct2, THEN conjunct1] by simp
  have calls: "[c \<leftarrow> calls (snd (generate_icon ?E (init_world Map.empty))). is_Polygon c] =
     [Polygon 0 (star_points (180, 200)) (255, 215, 0, 200),
      Polygon 0 (star_points (844, 180)) (255, 215, 0, 200),
      Polygon 0 (star_points (160, 780)) (255, 215, 0, 200),
      Polygon 0 (star_points (860, 820)) (255, 215, 0, 200)]"
    using t [THEN conjunct2, THEN conjunct2, THEN conjunct2, rule_format, OF sample_tier1_run] .
  show ?thesis
    using calls t [THEN conjunct1] zero five
    by (intro conjI)
qed

text \<open>
  Claim C8. Every coordinate a shape is drawn with lies between 0 and 1024: the vertices of
  the four star polygons, which stay within 20 of the positions (180, 200), (844, 180),
  (160, 780), (860, 820), and the corners of the boxes of the two hearts, which reach 15
  around (240, 340) and (780, 680); the background circle as well.
\<close>

theorem decorations_inside_canvas:
  "(\<forall>v \<in> set (star_points pos).
      \<bar>fst v - real_of_int (fst pos)\<bar> \<le> 20 \<and> \<bar>snd v - real_of_int (snd pos)\<bar> \<le> 20) \<and>
   (generate_icon env (init_world fs) = (Inr p, w') \<longrightarrow>
      (\<forall>c \<in> set (calls w'). \<forall>v \<in> set (drawn_coords c). within_canvas v) \<and>
      [c \<leftarrow> calls w'. is_Polygon c \<or> is_Ellipse c] =
        [Ellipse 0 (32, 32, 992, 992) (Some (248, 249, 250, 255)) (Some (222, 226, 230, 255)) 8,
         Polygon 0 (star_points (180, 200)) (255, 215, 0, 200),
         Polygon 0 (star_points (844, 180)) (255, 215, 0, 200),
         Polygon 0 (star_points (160, 780)) (255, 215, 0, 200),
         Polygon 0 (star_points (860, 820)) (255, 215, 0, 200),
         Ellipse 0 (240 - 15, 340 - 15, 240 + 15, 340 + 15) (Some (255, 105, 180, 150)) None 1,
         Ellipse 0 (780 - 15, 680 - 15, 780 + 15, 680 + 15) (Some (255, 105, 180, 150)) None 1])"
proof (intro conjI ballI impI)
  fix v assume "v \<in> set (star_points pos)"
  then show "\<bar>fst v - real_of_int (fst pos)\<bar> \<le> 20" and "\<bar>snd v - real_of_int (snd pos)\<bar> \<le> 20"
    using star_points_near by blast+
next
  assume "generate_icon env (init_world fs) = (Inr p, w')"
  then obtain hbox wbox where
    w': "w' = final_world env (fst (chosen_fonts env)) (font_calls env) fs hbox wbox"
    by (rule generate_icon_returns)
  have fc: "[c \<leftarrow> font_calls env. is_Polygon c \<or> is_Ellipse c] = []"
    by (rule font_calls_filter) auto
  show "[c \<leftarrow> calls w'. is_Polygon c \<or> is_Ellipse c] =
        [Ellipse 0 (32, 32, 992, 992) (Some (248, 249, 250, 255)) (Some (222, 226, 230, 255)) 8,
         Polygon 0 (star_points (180, 200)) (255, 215, 0, 200),
         Polygon 0 (star_points (844, 180)) (255, 215, 0, 200),
         Polygon 0 (star_points (160, 780)) (255, 215, 0, 200),
         Polygon 0 (star_points (860, 820)) (255, 215, 0, 200),
         Ellipse 0 (240 - 15, 340 - 15, 240 + 15, 340 + 15) (Some (255, 105, 180, 150)) None 1,
         Ellipse 0 (780 - 15, 680 - 15, 780 + 15, 680 + 15) (Some (255, 105, 180, 150)) None 1]"
    by (simp add: w' final_world_def fc hello_calls_def world_calls_def star_calls_def
          heart_calls_def sparkle_positions_def heart_positions_def)
  fix c v assume c: "c \<in> set (calls w')" and v: "v \<in> set (drawn_coords c)"
  have star: "within_canvas u"
    if "u \<in> set (star_points q)" "q \<in> set sparkle_positions" for u q
    using star_points_near [OF that(1)] that(2)
    by (auto simp add: within_canvas_def sparkle_positions_def)
  have fcs: "drawn_coords d = []" if "d \<in> set (font_calls env)" for d
    using that by (auto simp add: font_calls_def tier_calls_def split: if_splits)
  have "drawn_coords c = [] \<or>
        c = Ellipse 0 (32, 32, 992, 992) (Some (248, 249, 250, 255))
              (Some (222, 226, 230, 255)) 8 \<or>
        (\<exists>q \<in> set sparkle_positions. c = Polygon 0 (star_points q) (255, 215, 0, 200)) \<or>
        c \<in> set heart_calls"
    using c fcs
    by (auto simp add: w' final_world_def hello_calls_def world_calls_def star_calls_def)
  then consider "drawn_coords c = []"
    | "c = Ellipse 0 (32, 32, 992, 992) (Some (248, 249, 250, 255)) (Some (222, 226, 230, 255)) 8"
    | q where "q \<in> set sparkle_positions" "c = Polygon 0 (star_points q) (255, 215, 0, 200)"
    | "c \<in> set heart_calls"
    by blast
  then show "within_canvas v"
  proof cases
    case 1
    with v show ?thesis by simp
  next
    case 2
    with v show ?thesis by (auto simp add: within_canvas_def)
  next
    case 3
    with v show ?thesis by (simp add: star)
  next
    case 4
    with v show ?thesis
      by (auto simp add: heart_calls_def heart_positions_def within_canvas_def)
  qed
qed

theorem decorations_inside_canvas_witness:
  "list_all within_canvas
     (drawn_coords (Polygon 0 (star_points (860, 820)) (255, 215, 0, 200))) \<and>
   list_all within_canvas
     (drawn_coords (Ellipse 0 (765, 665, 795, 695) (Some (255, 105, 180, 150)) None 1)) \<and>
   length (star_points (860, 820)) = 10"
proof -
  let ?E = "sample_env arial_here"
  let ?w = "snd (generate_icon ?E (init_world Map.empty))"
  note t = decorations_inside_canvas [of "(860, 820)" ?E Map.empty "''icon.png''" ?w,
             THEN conjunct2, rule_format, OF sample_tier1_run]
  have "Polygon 0 (star_points (860, 820)) (255, 215, 0, 200)
          \<in> set [c \<leftarrow> calls ?w. is_Polygon c \<or> is_Ellipse c]"
       "Ellipse 0 (765, 665, 795, 695) (Some (255, 105, 180, 150)) None 1
          \<in> set [c \<leftarrow> calls ?w. is_Polygon c \<or> is_Ellipse c]"
    by (simp_all add: t [THEN conjunct2])
  then have "Polygon 0 (star_points (860, 820)) (255, 215, 0, 200) \<in> set (calls ?w)"
       "Ellipse 0 (765, 665, 795, 695) (Some (255, 105, 180, 150)) None 1 \<in> set (calls ?w)"
    by simp_all
  with t [THEN conjunct1] show ?thesis
    by (auto simp add: list_all_iff star_points_length)
qed

text \<open>
  Claim C9. If no call other than the background ellipse paints the pixel (512, 512) of the
  canvas (no pasted layer has alpha there, no star polygon and no heart covers it), the
  saved image has the opaque colour (248, 249, 250, 255) at (512, 512): the pixel lies inside
  the circle of radius 480 around it and off its outline band.
\<close>

theorem centre_pixel_is_background:
  assumes run: "generate_icon env (init_world fs) = (Inr p, w')"
      and clear: "\<forall>c \<in> set (calls w').
                    c \<noteq> Ellipse 0 (32, 32, 992, 992) (Some (248, 249, 250, 255))
                           (Some (222, 226, 230, 255)) 8 \<longrightarrow>
                    \<not> paints env (heap w') 0 (512, 512) c"
  shows "saved_pixel w' ''icon.png'' (512, 512) = Some (248, 249, 250, 255) \<and>
         alpha (248, 249, 250, 255) = 255 \<and>
         in_ellipse (512 - 480, 512 - 480, 512 + 480, 512 + 480) (512, 512)"
proof -
  from run obtain hbox wbox where
    w': "w' = final_world env (fst (chosen_fonts env)) (font_calls env) fs hbox wbox"
    by (rule generate_icon_returns)
  let ?f = "fst (chosen_fonts env)"
  let ?H = "hello_rotated env ?f hbox" and ?W = "world_rotated env ?f wbox"
  let ?hq = "(512 - (512 - box_width hbox div 2 - 50), 512 - 325)"
  let ?wq = "(512 - (512 - box_width wbox div 2 - 50), 512 - 495)"
  have hello: "\<not> (inside ?H ?hq \<and> alpha (im_pixel ?H ?hq) \<noteq> 0)"
    using clear [rule_format, of "Paste 0 2 (512 - box_width hbox div 2 - 50, 325) 2"]
    by (simp add: w' final_world_def hello_calls_def Let_def)
  have world: "\<not> (inside ?W ?wq \<and> alpha (im_pixel ?W ?wq) \<noteq> 0)"
    using clear [rule_format, of "Paste 0 4 (512 - box_width wbox div 2 - 50, 495) 4"]
    by (simp add: w' final_world_def world_calls_def Let_def)
  have stars: "\<not> polygon_covers env (star_points pos) (512, 512)"
    if "pos \<in> set sparkle_positions" for pos
    using clear [rule_format, of "Polygon 0 (star_points pos) (255, 215, 0, 200)"] that
    by (simp add: w' final_world_def star_calls_def)
  have bg: "im_pixel background (512, 512) = (248, 249, 250, 255)"
    by (simp add: background_def ellipse_px_def inside_def in_ellipse_def inset_def)
  have lab: "im_pixel (labelled env ?f hbox wbox) (512, 512) = (248, 249, 250, 255)"
    using hello world bg
    by (auto simp add: labelled_def paste_px_def Let_def)
  have dec: "im_pixel (decorate env c) (512, 512) = im_pixel c (512, 512)" for c
    using stars
    by (simp add: decorate_def sparkle_positions_def heart_positions_def polygon_px_def
          ellipse_px_def in_ellipse_def)
  have px: "im_pixel (final_canvas env ?f hbox wbox) (512, 512) = (248, 249, 250, 255)"
    by (simp add: final_canvas_def dec lab)
  have "getpixel (final_canvas env ?f hbox wbox) (512, 512) = Some (248, 249, 250, 255)"
    by (simp add: getpixel_def inside_def final_canvas_frame px)
  then show ?thesis
    by (simp add: w' final_world_def saved_pixel_def alpha_def in_ellipse_def)
qed

theorem centre_pixel_is_background_witness:
  "saved_pixel (snd (generate_icon (sample_env arial_here)
                       (init_world Map.empty)))
     ''icon.png'' (512, 512) = Some (248, 249, 250, 255)"
proof -
  let ?E = "sample_env arial_here"
  let ?w = "snd (generate_icon ?E (init_world Map.empty))"
  have w: "?w = final_world ?E (FreeTypeFont ''arial.ttf'' 140) (font_calls ?E) Map.empty
                  (0, 0, 350, 140) (0, 0, 350, 140)"
    using sample_final_world [of arial_here "(0, 0, 350, 140)" "(0, 0, 350, 140)"]
    by (simp add: sample_chosen_1 sample_runs_freetype)
  have pc: "polygon_covers ?E = sample_polygon"
    by (simp add: sample_env_def sample_fonts)
  have clear: "\<forall>c \<in> set (calls ?w).
                 c \<noteq> Ellipse 0 (32, 32, 992, 992) (Some (248, 249, 250, 255))
                        (Some (222, 226, 230, 255)) 8 \<longrightarrow>
                 \<not> paints ?E (heap ?w) 0 (512, 512) c"
    unfolding w
    by (simp add: final_world_def font_calls_def tier_calls_def tier_ok_def hello_calls_def
          world_calls_def star_calls_def heart_calls_def sparkle_positions_def
          heart_positions_def sample_layers sample_text_def sample_bbox_def box_width_def
          box_height_def inside_def alpha_def in_ellipse_def pc sample_polygon_star Let_def)
  from centre_pixel_is_background [OF sample_tier1_run clear] show ?thesis
    by simp
qed

text \<open>
  Claim C10, as stated, says that a run produces the same image as a run that never loads
  \<^verbatim>\<open>font_emoji\<close>. That fails where the load of \<^verbatim>\<open>font_emoji\<close> raises: on the sample machine
  whose \<^verbatim>\<open>arial.ttf\<close> loads at size 140 but not at size 40, and which has no other font file,
  the script falls through to the built-in font, while the script without \<^verbatim>\<open>font_emoji\<close>
  keeps \<^verbatim>\<open>arial.ttf\<close>; the pixel (400, 400) is background in the first image and red in the
  second.
\<close>

theorem font_emoji_load_changes_image:
  "fst (generate_icon (sample_env arial_large_only)
          (init_world Map.empty)) = Inr ''icon.png'' \<and>
   fst (generate_icon_without_font_emoji (sample_env arial_large_only)
          (init_world Map.empty)) = Inr ''icon.png'' \<and>
   saved_pixel (snd (generate_icon (sample_env arial_large_only)
                       (init_world Map.empty))) ''icon.png'' (400, 400)
     = Some (248, 249, 250, 255) \<and>
   saved_pixel (snd (generate_icon_without_font_emoji
                       (sample_env arial_large_only)
                       (init_world Map.empty))) ''icon.png'' (400, 400)
     = Some (255, 59, 48, 255)"
proof -
  let ?E = "sample_env arial_large_only"
  have cf: "chosen_fonts ?E = (DefaultFont, DefaultFont)"
    by (simp add: chosen_fonts_def tier_ok_def sample_env_def sample_fonts)
  have cl: "chosen_font_large ?E = FreeTypeFont ''arial.ttf'' 140"
    by (simp add: chosen_font_large_def sample_env_def sample_fonts)
  have a: "generate_icon ?E (init_world Map.empty) =
             (Inr ''icon.png'',
              final_world ?E DefaultFont (font_calls ?E) Map.empty (0, 0, 30, 11) (0, 0, 30, 11))"
    using generate_icon_ok [of ?E "(0, 0, 30, 11)" "(0, 0, 30, 11)" Map.empty]
    by (simp add: cf sample_runs_default)
  have b: "generate_icon_without_font_emoji ?E (init_world Map.empty) =
             (Inr ''icon.png'',
              final_world ?E (FreeTypeFont ''arial.ttf'' 140) (font_large_calls ?E) Map.empty
                (0, 0, 350, 140) (0, 0, 350, 140))"
    using without_font_emoji_ok [of ?E "(0, 0, 350, 140)" "(0, 0, 350, 140)" Map.empty]
    by (simp add: cl sample_runs_freetype)
  show ?thesis
    by (simp add: a b final_world_def saved_pixel_def getpixel_def inside_def final_canvas_frame)
       (simp add: final_canvas_def sample_decorate_400 sample_labelled_400_default
          sample_labelled_400_freetype)
qed

text \<open>
  Claim C10, amended. \<^verbatim>\<open>font_emoji\<close> reaches no measuring or drawing call. If each of the two
  font files that loads at size 140 also loads at size 40, then a run that returns leaves the
  same file, images and console output, makes the same calls other than font loads, and
  returns the same path as the run of the script without \<^verbatim>\<open>font_emoji\<close>.
\<close>

theorem font_emoji_matters_only_by_loading:
  assumes run: "generate_icon env (init_world fs) = (Inr p, w')"
      and arial: "truetype_ok env ''arial.ttf'' 140 \<longrightarrow> truetype_ok env ''arial.ttf'' 40"
      and windows: "truetype_ok env ''C:/Windows/Fonts/arial.ttf'' 140 \<longrightarrow>
                    truetype_ok env ''C:/Windows/Fonts/arial.ttf'' 40"
  shows "\<exists>w''. generate_icon_without_font_emoji env (init_world fs) = (Inr p, w'') \<and>
               files w'' = files w' \<and> heap w'' = heap w' \<and> stdout w'' = stdout w' \<and>
               [c \<leftarrow> calls w''. \<not> is_Truetype c \<and> \<not> is_LoadDefault c] =
               [c \<leftarrow> calls w'. \<not> is_Truetype c \<and> \<not> is_LoadDefault c]"
proof -
  from run obtain hbox wbox where
    r: "runs_with env (fst (chosen_fonts env)) hbox wbox" and
    p: "p = ''icon.png''" and
    w': "w' = final_world env (fst (chosen_fonts env)) (font_calls env) fs hbox wbox"
    by (rule generate_icon_returns)
  have same: "chosen_font_large env = fst (chosen_fonts env)"
    using arial windows by (simp add: chosen_font_large_def chosen_fonts_def tier_ok_def)
  have fc: "[c \<leftarrow> font_calls env. \<not> is_Truetype c \<and> \<not> is_LoadDefault c] = []"
    by (rule font_calls_filter) auto
  have fl: "[c \<leftarrow> font_large_calls env. \<not> is_Truetype c \<and> \<not> is_LoadDefault c] = []"
    by (simp add: font_large_calls_def)
  from r same have "runs_with env (chosen_font_large env) hbox wbox"
    by simp
  from without_font_emoji_ok [OF this, of fs] show ?thesis
    by (simp add: p w' same final_world_def fc fl)
qed

theorem font_emoji_matters_only_by_loading_witness:
  "fst (generate_icon_without_font_emoji (sample_env arial_here)
          (init_world Map.empty)) = Inr ''icon.png'' \<and>
   files (snd (generate_icon_without_font_emoji (sample_env arial_here)
                 (init_world Map.empty))) =
   files (snd (generate_icon (sample_env arial_here)
                 (init_world Map.empty)))"
proof -
  let ?E = "sample_env arial_here"
  have a: "truetype_ok ?E ''arial.ttf'' 140 \<longrightarrow> truetype_ok ?E ''arial.ttf'' 40"
    and b: "truetype_ok ?E ''C:/Windows/Fonts/arial.ttf'' 140 \<longrightarrow>
            truetype_ok ?E ''C:/Windows/Fonts/arial.ttf'' 40"
    and c: "truetype_ok ?E ''arial.ttf'' 140"
    by (simp_all add: sample_env_def sample_fonts)
  from font_emoji_matters_only_by_loading [OF sample_tier1_run a b] show ?thesis
    by auto
qed

end
